theory Spec2Isabelle
  imports Complex_Main
begin

section \<open>Conventions of the embedding\<close>

text \<open>
  The services under \<^verbatim>\<open>packages/ai-services/app\<close> are embedded function by function.
  \<^item> A Python \<^verbatim>\<open>float\<close> (and a numpy \<^verbatim>\<open>float64\<close>) is a \<^typ>\<open>real\<close>: arithmetic is exact and
    every value is finite. Where the source divides, the guard of the source is kept; the
    unguarded divisions have their division by zero written out: \<^verbatim>\<open>inf\<close> for the two numpy
    divisions of the trend loop, \<^verbatim>\<open>ZeroDivisionError\<close> for the Python division of the
    outlier loop.
  \<^item> A \<^verbatim>\<open>datetime\<close> is an \<^typ>\<open>int\<close>, the microseconds since the epoch; every call of
    \<^verbatim>\<open>datetime.utcnow()\<close> is an argument of the function that makes it.
  \<^item> An exception is a value: functions that can raise return \<open>error + 'a\<close>.
  \<^item> A \<^verbatim>\<open>dict\<close> that is only looked up is a map; a \<^verbatim>\<open>dict\<close> that is iterated is an
    association list in insertion order, with distinct keys.
  \<^item> An f-string is the list of its pieces: literal text, and numbers with their format
    specification. Names lose a leading underscore.
\<close>

datatype error =
    ValueError string
  | KeyError string
  | IndexError
  | ZeroDivisionError
  | ValidationError string

definition bindE :: "error + 'a \<Rightarrow> ('a \<Rightarrow> error + 'b) \<Rightarrow> error + 'b" where
  "bindE m f = (case m of Inl e \<Rightarrow> Inl e | Inr x \<Rightarrow> f x)"

datatype piece =
    Lit string        \<comment> \<open>literal text, or a \<^verbatim>\<open>str\<close> substituted as it is\<close>
  | Num real          \<comment> \<open>\<^verbatim>\<open>{x}\<close>\<close>
  | Fixed nat real    \<comment> \<open>\<^verbatim>\<open>{x:.nf}\<close>\<close>

type_synonym fstring = "piece list"

type_synonym datetime = int

definition timedelta_hours :: "int \<Rightarrow> int" where
  "timedelta_hours h = h * 3600000000"


section \<open>config/model\_config.py\<close>

datatype ModelVersion = SIGNAL_QUALITY_V1 | ANOMALY_DETECTION_V1 | RISK_SCORING_V1

fun version_value :: "ModelVersion \<Rightarrow> string" where
  "version_value SIGNAL_QUALITY_V1 = ''signal-quality-v1.0.0''"
| "version_value ANOMALY_DETECTION_V1 = ''anomaly-detection-v1.0.0''"
| "version_value RISK_SCORING_V1 = ''risk-scoring-v1.0.0''"

record ModelMetadata =
  md_version :: ModelVersion
  md_name :: string
  md_description :: string
  created_at :: string
  deterministic :: bool
  inference_only :: bool
  parameters :: "(string \<times> real) list"

record AlertThresholds =
  HEART_RATE_NORMAL_MIN :: real
  HEART_RATE_NORMAL_MAX :: real
  HEART_RATE_WARNING_MIN :: real
  HEART_RATE_WARNING_MAX :: real
  HEART_RATE_CRITICAL_MIN :: real
  HEART_RATE_CRITICAL_MAX :: real
  TEMPERATURE_NORMAL_MIN :: real
  TEMPERATURE_NORMAL_MAX :: real
  TEMPERATURE_WARNING_MIN :: real
  TEMPERATURE_WARNING_MAX :: real
  TEMPERATURE_CRITICAL_MIN :: real
  TEMPERATURE_CRITICAL_MAX :: real
  OXYGEN_SATURATION_NORMAL_MIN :: real
  OXYGEN_SATURATION_WARNING_MIN :: real
  OXYGEN_SATURATION_CRITICAL_MIN :: real
  BLOOD_PRESSURE_SYSTOLIC_NORMAL_MAX :: real
  BLOOD_PRESSURE_SYSTOLIC_WARNING_MAX :: real
  BLOOD_PRESSURE_SYSTOLIC_CRITICAL_MAX :: real
  BLOOD_PRESSURE_SYSTOLIC_NORMAL_MIN :: real
  BLOOD_PRESSURE_SYSTOLIC_WARNING_MIN :: real
  BLOOD_PRESSURE_SYSTOLIC_CRITICAL_MIN :: real
  BATTERY_WARNING :: real
  BATTERY_CRITICAL :: real
  SIGNAL_STRENGTH_WARNING :: real
  SIGNAL_STRENGTH_CRITICAL :: real
  Z_SCORE_THRESHOLD :: real
  TREND_CHANGE_THRESHOLD :: real
  RISK_SCORE_LOW :: real
  RISK_SCORE_MODERATE :: real
  RISK_SCORE_HIGH :: real
  MIN_CONFIDENCE_FOR_ALERT :: real
  HIGH_CONFIDENCE_THRESHOLD :: real
  SIGNAL_QUALITY_GOOD :: real
  SIGNAL_QUALITY_EXCELLENT :: real
  SIGNAL_QUALITY_USABLE :: real

text \<open>\<^verbatim>\<open>AlertThresholds()\<close>: every field at the default of the dataclass.\<close>

definition AlertThresholds_default :: AlertThresholds where
  "AlertThresholds_default = \<lparr>
     HEART_RATE_NORMAL_MIN = 60, HEART_RATE_NORMAL_MAX = 100,
     HEART_RATE_WARNING_MIN = 50, HEART_RATE_WARNING_MAX = 120,
     HEART_RATE_CRITICAL_MIN = 40, HEART_RATE_CRITICAL_MAX = 150,
     TEMPERATURE_NORMAL_MIN = 361 / 10, TEMPERATURE_NORMAL_MAX = 372 / 10,
     TEMPERATURE_WARNING_MIN = 355 / 10, TEMPERATURE_WARNING_MAX = 38,
     TEMPERATURE_CRITICAL_MIN = 34, TEMPERATURE_CRITICAL_MAX = 395 / 10,
     OXYGEN_SATURATION_NORMAL_MIN = 95, OXYGEN_SATURATION_WARNING_MIN = 93,
     OXYGEN_SATURATION_CRITICAL_MIN = 90,
     BLOOD_PRESSURE_SYSTOLIC_NORMAL_MAX = 140, BLOOD_PRESSURE_SYSTOLIC_WARNING_MAX = 160,
     BLOOD_PRESSURE_SYSTOLIC_CRITICAL_MAX = 180,
     BLOOD_PRESSURE_SYSTOLIC_NORMAL_MIN = 90, BLOOD_PRESSURE_SYSTOLIC_WARNING_MIN = 80,
     BLOOD_PRESSURE_SYSTOLIC_CRITICAL_MIN = 70,
     BATTERY_WARNING = 20, BATTERY_CRITICAL = 10,
     SIGNAL_STRENGTH_WARNING = - 90, SIGNAL_STRENGTH_CRITICAL = - 100,
     Z_SCORE_THRESHOLD = 3, TREND_CHANGE_THRESHOLD = 2 / 10,
     RISK_SCORE_LOW = 25 / 100, RISK_SCORE_MODERATE = 5 / 10, RISK_SCORE_HIGH = 75 / 100,
     MIN_CONFIDENCE_FOR_ALERT = 6 / 10, HIGH_CONFIDENCE_THRESHOLD = 8 / 10,
     SIGNAL_QUALITY_GOOD = 6 / 10, SIGNAL_QUALITY_EXCELLENT = 8 / 10,
     SIGNAL_QUALITY_USABLE = 5 / 10 \<rparr>"

record ModelConfig =
  version :: ModelVersion
  metadata :: ModelMetadata
  thresholds :: AlertThresholds
  random_seed :: int

type_synonym registry = "ModelVersion \<rightharpoonup> ModelConfig"

definition SIGNAL_QUALITY_V1_config :: ModelConfig where
  "SIGNAL_QUALITY_V1_config = \<lparr>
     version = SIGNAL_QUALITY_V1,
     metadata = \<lparr>
       md_version = SIGNAL_QUALITY_V1,
       md_name = ''Signal Quality Assessment Model'',
       md_description = ''Statistical signal quality assessment using SNR, RMS error, and motion artifact detection'',
       created_at = ''2026-01-15'',
       deterministic = True,
       inference_only = True,
       parameters = [
         (''snr_weight'', 3 / 10),
         (''rms_weight'', 2 / 10),
         (''peak_confidence_weight'', 2 / 10),
         (''baseline_drift_weight'', 15 / 100),
         (''motion_artifact_weight'', 15 / 100)] \<rparr>,
     thresholds = AlertThresholds_default,
     random_seed = 42 \<rparr>"

definition ANOMALY_DETECTION_V1_config :: ModelConfig where
  "ANOMALY_DETECTION_V1_config = \<lparr>
     version = ANOMALY_DETECTION_V1,
     metadata = \<lparr>
       md_version = ANOMALY_DETECTION_V1,
       md_name = ''Anomaly Detection Model'',
       md_description = ''Z-score based anomaly detection with trend analysis'',
       created_at = ''2026-01-15'',
       deterministic = True,
       inference_only = True,
       parameters = [
         (''z_score_threshold'', 3),
         (''trend_window_size'', 3),
         (''trend_change_threshold'', 2 / 10)] \<rparr>,
     thresholds = AlertThresholds_default,
     random_seed = 42 \<rparr>"

definition RISK_SCORING_V1_config :: ModelConfig where
  "RISK_SCORING_V1_config = \<lparr>
     version = RISK_SCORING_V1,
     metadata = \<lparr>
       md_version = RISK_SCORING_V1,
       md_name = ''Risk Scoring Model'',
       md_description = ''Weighted risk scoring based on vital metrics, anomalies, and trends'',
       created_at = ''2026-01-15'',
       deterministic = True,
       inference_only = True,
       parameters = [
         (''heart_rate_weight'', 4 / 10),
         (''temperature_weight'', 3 / 10),
         (''oxygen_saturation_weight'', 3 / 10),
         (''anomaly_weight'', 3 / 10),
         (''signal_quality_weight'', 1 / 10)] \<rparr>,
     thresholds = AlertThresholds_default,
     random_seed = 42 \<rparr>"

definition MODEL_REGISTRY :: registry where
  "MODEL_REGISTRY =
     [SIGNAL_QUALITY_V1 \<mapsto> SIGNAL_QUALITY_V1_config,
      ANOMALY_DETECTION_V1 \<mapsto> ANOMALY_DETECTION_V1_config,
      RISK_SCORING_V1 \<mapsto> RISK_SCORING_V1_config]"

text \<open>
  The lookups read the module-level dictionary. It is an argument here, and each lookup
  returns it next to its result, so that what a lookup leaves in the registry is part of
  the model.
\<close>

definition get_model_config :: "ModelVersion \<Rightarrow> registry \<Rightarrow> (error + ModelConfig) \<times> registry" where
  "get_model_config v reg =
     (case reg v of
        None \<Rightarrow> (Inl (ValueError (''Model version '' @ version_value v @ '' not found in registry'')), reg)
      | Some c \<Rightarrow> (Inr c, reg))"

definition get_latest_model_version :: "string \<Rightarrow> error + ModelVersion" where
  "get_latest_model_version model_type =
     (if model_type = ''signal_quality'' then Inr SIGNAL_QUALITY_V1
      else if model_type = ''anomaly_detection'' then Inr ANOMALY_DETECTION_V1
      else if model_type = ''risk_scoring'' then Inr RISK_SCORING_V1
      else Inl (ValueError (''Unknown model type: '' @ model_type)))"

definition get_thresholds :: "ModelVersion \<Rightarrow> registry \<Rightarrow> (error + AlertThresholds) \<times> registry" where
  "get_thresholds v reg =
     (case get_model_config v reg of
        (Inl e, reg') \<Rightarrow> (Inl e, reg')
      | (Inr config, reg') \<Rightarrow> (Inr (thresholds config), reg'))"


section \<open>numpy and \<^verbatim>\<open>str\<close> operations used by the services\<close>

text \<open>
  \<^verbatim>\<open>np.mean\<close>, \<^verbatim>\<open>np.diff\<close> and \<^verbatim>\<open>np.std\<close> (the population standard deviation).
  The mean of an empty array is nan in numpy; every call below is on an array that its
  caller has checked to be non-empty, or is followed by a comparison that nan fails as
  the value \<open>0\<close> does.

  The arithmetic here is exact, numpy rounds every operation to a \<^verbatim>\<open>float64\<close>. The two
  differ where a result is compared with a number it can equal: \<open>np_var\<close> of equal values
  is \<open>0\<close>, and \<^verbatim>\<open>np.std\<close> of \<^verbatim>\<open>[0.1, 0.1, 0.1]\<close> is positive, since the rounded mean is not
  \<^verbatim>\<open>0.1\<close>. A property that turns on such a comparison is stated below on the computed
  value that is compared, not on the numbers it is computed from.
\<close>

definition np_mean :: "real list \<Rightarrow> real" where
  "np_mean xs = sum_list xs / real (length xs)"

definition np_diff :: "real list \<Rightarrow> real list" where
  "np_diff xs = map (\<lambda>(b, a). b - a) (zip (tl xs) xs)"

definition np_var :: "real list \<Rightarrow> real" where
  "np_var xs = np_mean (map (\<lambda>x. (x - np_mean xs)\<^sup>2) xs)"

definition np_std :: "real list \<Rightarrow> real" where
  "np_std xs = sqrt (np_var xs)"

text \<open>
  \<^verbatim>\<open>str.lower\<close>, \<^verbatim>\<open>str.title\<close>, \<^verbatim>\<open>str.replace('_', ' ')\<close> and the operator \<^verbatim>\<open>in\<close> on
  strings, for strings of ASCII characters.
\<close>

definition is_upper :: "char \<Rightarrow> bool" where
  "is_upper c = (65 \<le> (of_char c :: nat) \<and> (of_char c :: nat) \<le> 90)"

definition is_lower :: "char \<Rightarrow> bool" where
  "is_lower c = (97 \<le> (of_char c :: nat) \<and> (of_char c :: nat) \<le> 122)"

definition to_lower :: "char \<Rightarrow> char" where
  "to_lower c = (if is_upper c then char_of ((of_char c :: nat) + 32) else c)"

definition to_upper :: "char \<Rightarrow> char" where
  "to_upper c = (if is_lower c then char_of ((of_char c :: nat) - 32) else c)"

definition lower :: "string \<Rightarrow> string" where
  "lower s = map to_lower s"

fun title_from :: "bool \<Rightarrow> string \<Rightarrow> string" where
  "title_from prev [] = []"
| "title_from prev (c # cs) =
     (if is_lower c then (if prev then c else to_upper c) # title_from True cs
      else if is_upper c then (if prev then to_lower c else c) # title_from True cs
      else c # title_from False cs)"

definition title :: "string \<Rightarrow> string" where
  "title s = title_from False s"

definition replace_underscores :: "string \<Rightarrow> string" where
  "replace_underscores s = map (\<lambda>c. if c = CHR ''_'' then CHR '' '' else c) s"

fun starts_with :: "string \<Rightarrow> string \<Rightarrow> bool" where
  "starts_with s [] = True"
| "starts_with [] (p # ps) = False"
| "starts_with (c # cs) (p # ps) = (c = p \<and> starts_with cs ps)"

fun contains :: "string \<Rightarrow> string \<Rightarrow> bool" where
  "contains [] sub = (sub = [])"
| "contains (c # cs) sub = (starts_with (c # cs) sub \<or> contains cs sub)"

definition degree_sign :: string where
  "degree_sign = [CHR 0xC2, CHR 0xB0]"

definition plus_minus_sign :: string where
  "plus_minus_sign = [CHR 0xC2, CHR 0xB1]"

text \<open>The values of a \<^verbatim>\<open>dict[str, Any]\<close> that the services build.\<close>

datatype any =
    ANone
  | AFloat real
  | AStr string
  | AText fstring
  | AFloats "real list"
  | ADict "(string \<times> any) list"


section \<open>schemas/risk\_scoring.py\<close>

datatype RiskLevel = LOW | MODERATE | HIGH | CRITICAL

record RiskFactors =
  factor_name :: string
  factor_score :: real
  weight :: real
  rf_description :: fstring
  evidence :: "(string \<times> any) list option"

text \<open>The constructor of the pydantic model checks \<^verbatim>\<open>ge=0, le=1\<close> on both numbers.\<close>

definition RiskFactors_new ::
  "string \<Rightarrow> real \<Rightarrow> real \<Rightarrow> fstring \<Rightarrow> (string \<times> any) list option \<Rightarrow> error + RiskFactors" where
  "RiskFactors_new n s w d e =
     (if \<not> (0 \<le> s \<and> s \<le> 1) then Inl (ValidationError ''factor_score'')
      else if \<not> (0 \<le> w \<and> w \<le> 1) then Inl (ValidationError ''weight'')
      else Inr \<lparr> factor_name = n, factor_score = s, weight = w, rf_description = d, evidence = e \<rparr>)"

record RiskScoringRequest =
  rsq_device_id :: string
  rsq_inmate_device_id :: "string option"
  vital_metrics :: "(string \<times> real) list"
  historical_trends :: "(string \<times> real list) list option"
  anomaly_flags :: "string list option"
  signal_quality_score :: "real option"
  time_window_hours :: int
  rsq_metadata :: "(string \<times> any) list option"

record RiskScoringResponse =
  rsr_device_id :: string
  overall_risk_score :: real
  risk_level :: RiskLevel
  risk_factors :: "RiskFactors list"
  primary_concerns :: "fstring list"
  recommended_actions :: "fstring list"
  rsr_confidence :: real
  assessed_at :: datetime
  valid_until :: datetime
  rsr_model_version :: "string option"

definition RiskScoringResponse_new ::
  "string \<Rightarrow> real \<Rightarrow> RiskLevel \<Rightarrow> RiskFactors list \<Rightarrow> fstring list \<Rightarrow> fstring list \<Rightarrow> real \<Rightarrow>
   datetime \<Rightarrow> datetime \<Rightarrow> string option \<Rightarrow> error + RiskScoringResponse" where
  "RiskScoringResponse_new d s l fs pc ra c t u mv =
     (if \<not> (0 \<le> s \<and> s \<le> 1) then Inl (ValidationError ''overall_risk_score'')
      else if \<not> (0 \<le> c \<and> c \<le> 1) then Inl (ValidationError ''confidence'')
      else Inr \<lparr> rsr_device_id = d, overall_risk_score = s, risk_level = l, risk_factors = fs,
                 primary_concerns = pc, recommended_actions = ra, rsr_confidence = c,
                 assessed_at = t, valid_until = u, rsr_model_version = mv \<rparr>)"


section \<open>services/risk\_scoring\_service.py\<close>

record RiskScoringService =
  rs_model_version :: ModelVersion
  rs_config :: ModelConfig
  rs_thresholds :: AlertThresholds
  rs_params :: "(string \<times> real) list"

text \<open>\<^verbatim>\<open>__init__\<close>; \<^verbatim>\<open>np.random.seed\<close> sets a generator that no method reads.\<close>

definition RiskScoringService_init :: "registry \<Rightarrow> (error + RiskScoringService) \<times> registry" where
  "RiskScoringService_init reg =
     (case get_latest_model_version ''risk_scoring'' of
        Inl e \<Rightarrow> (Inl e, reg)
      | Inr v \<Rightarrow>
          (case get_model_config v reg of
             (Inl e, reg') \<Rightarrow> (Inl e, reg')
           | (Inr c, reg') \<Rightarrow>
               (Inr \<lparr> rs_model_version = v, rs_config = c, rs_thresholds = thresholds c,
                      rs_params = parameters (metadata c) \<rparr>, reg')))"

text \<open>\<^verbatim>\<open>params[key]\<close> raises \<^verbatim>\<open>KeyError\<close>; \<^verbatim>\<open>params.get(key, default)\<close> does not.\<close>

definition param :: "(string \<times> real) list \<Rightarrow> string \<Rightarrow> error + real" where
  "param ps k = (case map_of ps k of None \<Rightarrow> Inl (KeyError k) | Some w \<Rightarrow> Inr w)"

definition param_get :: "(string \<times> real) list \<Rightarrow> string \<Rightarrow> real \<Rightarrow> real" where
  "param_get ps k d = (case map_of ps k of None \<Rightarrow> d | Some w \<Rightarrow> w)"

text \<open>\<^verbatim>\<open>trend and len(trend) >= 3\<close> for an optional list.\<close>

definition has_trend :: "real list option \<Rightarrow> bool" where
  "has_trend trend = (case trend of None \<Rightarrow> False | Some t \<Rightarrow> t \<noteq> [] \<and> 3 \<le> length t)"

definition score_heart_rate :: "RiskScoringService \<Rightarrow> real \<Rightarrow> real list option \<Rightarrow> real" where
  "score_heart_rate self val trend =
     (let normal_min = HEART_RATE_NORMAL_MIN (rs_thresholds self);
          normal_max = HEART_RATE_NORMAL_MAX (rs_thresholds self);
          warning_min = HEART_RATE_WARNING_MIN (rs_thresholds self);
          warning_max = HEART_RATE_WARNING_MAX (rs_thresholds self);
          critical_min = HEART_RATE_CRITICAL_MIN (rs_thresholds self);
          critical_max = HEART_RATE_CRITICAL_MAX (rs_thresholds self);
          base_score =
            (if val < critical_min \<or> val > critical_max then 8 / 10
             else if val < warning_min \<or> val > warning_max then 5 / 10
             else if val < normal_min \<or> val > normal_max then 3 / 10
             else 1 / 10);
          base_score' =
            (if has_trend trend then
               (let trend_direction = np_mean (np_diff (the trend)) in
                if trend_direction > 5 then min 1 (base_score + 2 / 10)
                else if trend_direction < - 5 then min 1 (base_score + 15 / 100)
                else base_score)
             else base_score)
      in max 0 (min 1 base_score'))"

definition score_temperature :: "RiskScoringService \<Rightarrow> real \<Rightarrow> real list option \<Rightarrow> real" where
  "score_temperature self val trend =
     (let normal_min = TEMPERATURE_NORMAL_MIN (rs_thresholds self);
          normal_max = TEMPERATURE_NORMAL_MAX (rs_thresholds self);
          warning_min = TEMPERATURE_WARNING_MIN (rs_thresholds self);
          warning_max = TEMPERATURE_WARNING_MAX (rs_thresholds self);
          critical_min = TEMPERATURE_CRITICAL_MIN (rs_thresholds self);
          critical_max = TEMPERATURE_CRITICAL_MAX (rs_thresholds self);
          base_score =
            (if val < critical_min \<or> val > critical_max then 8 / 10
             else if val < warning_min \<or> val > warning_max then 5 / 10
             else if val < normal_min \<or> val > normal_max then 3 / 10
             else 1 / 10);
          base_score' =
            (if has_trend trend then
               (let trend_direction = np_mean (np_diff (the trend)) in
                if trend_direction > 2 / 10 then min 1 (base_score + 2 / 10)
                else base_score)
             else base_score)
      in max 0 (min 1 base_score'))"

definition score_oxygen_saturation :: "RiskScoringService \<Rightarrow> real \<Rightarrow> real" where
  "score_oxygen_saturation self val =
     (let normal_min = OXYGEN_SATURATION_NORMAL_MIN (rs_thresholds self);
          warning_min = OXYGEN_SATURATION_WARNING_MIN (rs_thresholds self);
          critical_min = OXYGEN_SATURATION_CRITICAL_MIN (rs_thresholds self)
      in if val < critical_min then 1
         else if val < warning_min then 7 / 10
         else if val < normal_min then 4 / 10
         else 1 / 10)"

definition explain_heart_rate_risk ::
  "RiskScoringService \<Rightarrow> real \<Rightarrow> real list option \<Rightarrow> real \<Rightarrow> fstring" where
  "explain_heart_rate_risk self val trend score =
     (let normal_min = HEART_RATE_NORMAL_MIN (rs_thresholds self);
          normal_max = HEART_RATE_NORMAL_MAX (rs_thresholds self);
          in_range = [Lit ''Heart rate within normal range: '', Fixed 0 val, Lit '' bpm''];
          explanation =
            (if val < normal_min then
               [Lit ''Bradycardia: '', Fixed 0 val, Lit '' bpm (below normal range '',
                Num normal_min, Lit ''-'', Num normal_max, Lit '' bpm)'']
             else if val > normal_max then
               [Lit ''Tachycardia: '', Fixed 0 val, Lit '' bpm (above normal range '',
                Num normal_min, Lit ''-'', Num normal_max, Lit '' bpm)'']
             else if has_trend trend then
               (let trend_direction = np_mean (np_diff (the trend)) in
                if trend_direction > 5 then
                  [Lit ''Heart rate trending upward: '', Fixed 0 val, Lit '' bpm (trend: +'',
                   Fixed 1 trend_direction, Lit '' bpm/min)'']
                else if trend_direction < - 5 then
                  [Lit ''Heart rate trending downward: '', Fixed 0 val, Lit '' bpm (trend: '',
                   Fixed 1 trend_direction, Lit '' bpm/min)'']
                else in_range)
             else in_range)
      in explanation @ [Lit '' (risk score: '', Fixed 2 score, Lit '')''])"

definition explain_temperature_risk ::
  "RiskScoringService \<Rightarrow> real \<Rightarrow> real list option \<Rightarrow> real \<Rightarrow> fstring" where
  "explain_temperature_risk self val trend score =
     (let normal_min = TEMPERATURE_NORMAL_MIN (rs_thresholds self);
          normal_max = TEMPERATURE_NORMAL_MAX (rs_thresholds self);
          in_range = [Lit ''Body temperature within normal range: '', Fixed 2 val, Lit (degree_sign @ ''C'')];
          explanation =
            (if val < normal_min then
               [Lit ''Low body temperature: '', Fixed 2 val, Lit (degree_sign @ ''C (normal: ''),
                Num normal_min, Lit ''-'', Num normal_max, Lit (degree_sign @ ''C, possible hypothermia)'')]
             else if val > normal_max then
               [Lit ''Elevated body temperature: '', Fixed 2 val, Lit (degree_sign @ ''C (normal: ''),
                Num normal_min, Lit ''-'', Num normal_max, Lit (degree_sign @ ''C, possible fever)'')]
             else if has_trend trend then
               (let trend_direction = np_mean (np_diff (the trend)) in
                if trend_direction > 2 / 10 then
                  [Lit ''Temperature trending upward: '', Fixed 2 val, Lit (degree_sign @ ''C (trend: +''),
                   Fixed 2 trend_direction, Lit (degree_sign @ ''C/min)'')]
                else in_range)
             else in_range)
      in explanation @ [Lit '' (risk score: '', Fixed 2 score, Lit '')''])"

definition explain_oxygen_saturation_risk :: "RiskScoringService \<Rightarrow> real \<Rightarrow> real \<Rightarrow> fstring" where
  "explain_oxygen_saturation_risk self val score =
     (let normal_min = OXYGEN_SATURATION_NORMAL_MIN (rs_thresholds self);
          warning_min = OXYGEN_SATURATION_WARNING_MIN (rs_thresholds self);
          critical_min = OXYGEN_SATURATION_CRITICAL_MIN (rs_thresholds self);
          explanation =
            (if val < critical_min then
               [Lit ''Critical oxygen saturation: '', Num val, Lit ''% (normal: >'', Num normal_min,
                Lit ''%, critical threshold: <'', Num critical_min, Lit ''%)'']
             else if val < warning_min then
               [Lit ''Low oxygen saturation: '', Num val, Lit ''% (normal: >'', Num normal_min,
                Lit ''%, warning threshold: <'', Num warning_min, Lit ''%)'']
             else if val < normal_min then
               [Lit ''Slightly low oxygen saturation: '', Num val, Lit ''% (normal: >'', Num normal_min,
                Lit ''%)'']
             else [Lit ''Oxygen saturation normal: '', Num val, Lit ''%''])
      in explanation @ [Lit '' (risk score: '', Fixed 2 score, Lit '')''])"

text \<open>
  \<^verbatim>\<open>historical_trends.get(key, []) if historical_trends else None\<close>: an empty dictionary
  is falsy as \<^verbatim>\<open>None\<close> is.
\<close>

definition trend_of :: "(string \<times> real list) list option \<Rightarrow> string \<Rightarrow> real list option" where
  "trend_of ht k =
     (case ht of
        None \<Rightarrow> None
      | Some d \<Rightarrow> if d = [] then None else Some (case map_of d k of None \<Rightarrow> [] | Some t \<Rightarrow> t))"

definition trend_evidence :: "real list option \<Rightarrow> any" where
  "trend_evidence trend = (case trend of None \<Rightarrow> ANone | Some t \<Rightarrow> AFloats t)"

definition heart_rate_factor ::
  "RiskScoringService \<Rightarrow> (string \<times> real) list \<Rightarrow> (string \<times> real list) list option \<Rightarrow> error + RiskFactors list" where
  "heart_rate_factor self vm ht =
     (case map_of vm ''heart_rate'' of
        None \<Rightarrow> Inr []
      | Some hr_value \<Rightarrow>
          (let hr_trend = trend_of ht ''heart_rate'';
               hr_score = score_heart_rate self hr_value hr_trend
           in bindE (param (rs_params self) ''heart_rate_weight'') (\<lambda>hr_weight.
              let explanation = explain_heart_rate_risk self hr_value hr_trend hr_score
              in bindE (RiskFactors_new ''Heart Rate Assessment'' hr_score hr_weight explanation
                   (Some [
                     (''current_value'', AFloat hr_value),
                     (''trend'', trend_evidence hr_trend),
                     (''normal_range'', AText [Num (HEART_RATE_NORMAL_MIN (rs_thresholds self)), Lit ''-'',
                        Num (HEART_RATE_NORMAL_MAX (rs_thresholds self)), Lit '' bpm'']),
                     (''thresholds'', ADict [
                        (''warning'', AText [Num (HEART_RATE_WARNING_MIN (rs_thresholds self)), Lit ''-'',
                           Num (HEART_RATE_WARNING_MAX (rs_thresholds self))]),
                        (''critical'', AText [Lit ''<'', Num (HEART_RATE_CRITICAL_MIN (rs_thresholds self)),
                           Lit '' or >'', Num (HEART_RATE_CRITICAL_MAX (rs_thresholds self))])])]))
                 (\<lambda>f. Inr [f]))))"

definition temperature_factor ::
  "RiskScoringService \<Rightarrow> (string \<times> real) list \<Rightarrow> (string \<times> real list) list option \<Rightarrow> error + RiskFactors list" where
  "temperature_factor self vm ht =
     (if map_of vm ''temperature'' \<noteq> None \<or> map_of vm ''temperature_celsius'' \<noteq> None then
        (let temp_key = (if map_of vm ''temperature'' \<noteq> None then ''temperature''
                         else ''temperature_celsius'');
             temp_value = the (map_of vm temp_key);
             temp_trend = trend_of ht temp_key;
             temp_score = score_temperature self temp_value temp_trend
         in bindE (param (rs_params self) ''temperature_weight'') (\<lambda>temp_weight.
            let explanation = explain_temperature_risk self temp_value temp_trend temp_score
            in bindE (RiskFactors_new ''Temperature Assessment'' temp_score temp_weight explanation
                 (Some [
                   (''current_value'', AFloat temp_value),
                   (''trend'', trend_evidence temp_trend),
                   (''normal_range'', AText [Num (TEMPERATURE_NORMAL_MIN (rs_thresholds self)), Lit ''-'',
                      Num (TEMPERATURE_NORMAL_MAX (rs_thresholds self)), Lit (degree_sign @ ''C'')]),
                   (''thresholds'', ADict [
                      (''warning'', AText [Num (TEMPERATURE_WARNING_MIN (rs_thresholds self)), Lit ''-'',
                         Num (TEMPERATURE_WARNING_MAX (rs_thresholds self))]),
                      (''critical'', AText [Lit ''<'', Num (TEMPERATURE_CRITICAL_MIN (rs_thresholds self)),
                         Lit '' or >'', Num (TEMPERATURE_CRITICAL_MAX (rs_thresholds self))])])]))
               (\<lambda>f. Inr [f])))
      else Inr [])"

definition oxygen_saturation_factor ::
  "RiskScoringService \<Rightarrow> (string \<times> real) list \<Rightarrow> error + RiskFactors list" where
  "oxygen_saturation_factor self vm =
     (if map_of vm ''oxygen_saturation'' \<noteq> None \<or> map_of vm ''spo2'' \<noteq> None then
        (let o2_key = (if map_of vm ''oxygen_saturation'' \<noteq> None then ''oxygen_saturation''
                       else ''spo2'');
             o2_value = the (map_of vm o2_key);
             o2_score = score_oxygen_saturation self o2_value
         in bindE (param (rs_params self) ''oxygen_saturation_weight'') (\<lambda>o2_weight.
            let explanation = explain_oxygen_saturation_risk self o2_value o2_score
            in bindE (RiskFactors_new ''Oxygen Saturation Assessment'' o2_score o2_weight explanation
                 (Some [
                   (''current_value'', AFloat o2_value),
                   (''normal_min'', AFloat (OXYGEN_SATURATION_NORMAL_MIN (rs_thresholds self))),
                   (''thresholds'', ADict [
                      (''warning'', AText [Lit ''<'', Num (OXYGEN_SATURATION_WARNING_MIN (rs_thresholds self)),
                         Lit ''%'']),
                      (''critical'', AText [Lit ''<'', Num (OXYGEN_SATURATION_CRITICAL_MIN (rs_thresholds self)),
                         Lit ''%''])])]))
               (\<lambda>f. Inr [f])))
      else Inr [])"

text \<open>\<^verbatim>\<open>_analyze_vital_metrics\<close>: the three blocks in the order of the source.\<close>

definition analyze_vital_metrics ::
  "RiskScoringService \<Rightarrow> (string \<times> real) list \<Rightarrow> (string \<times> real list) list option \<Rightarrow> error + RiskFactors list" where
  "analyze_vital_metrics self vm ht =
     bindE (heart_rate_factor self vm ht) (\<lambda>hr.
     bindE (temperature_factor self vm ht) (\<lambda>temp.
     bindE (oxygen_saturation_factor self vm) (\<lambda>o2.
     Inr (hr @ temp @ o2))))"

definition critical_anomalies :: "string list" where
  "critical_anomalies = [''heart_rate_abnormal'', ''temperature_abnormal'', ''device_tamper'']"

definition anomaly_flag_factor :: "RiskScoringService \<Rightarrow> string \<Rightarrow> error + RiskFactors" where
  "anomaly_flag_factor self flag =
     (let is_critical = (flag \<in> set critical_anomalies);
          score = (if is_critical then 8 / 10 else 5 / 10);
          w = (if is_critical then param_get (rs_params self) ''anomaly_weight'' (3 / 10) else 2 / 10);
          explanation = [Lit ''Anomaly detected: '', Lit (title (replace_underscores flag)), Lit '' ('',
                         Lit (if is_critical then ''critical'' else ''moderate''), Lit '' severity)'']
      in RiskFactors_new (''Anomaly: '' @ title (replace_underscores flag)) score w explanation
           (Some [(''anomaly_type'', AStr flag),
                  (''severity'', AStr (if is_critical then ''critical'' else ''moderate''))]))"

fun analyze_anomaly_flags :: "RiskScoringService \<Rightarrow> string list \<Rightarrow> error + RiskFactors list" where
  "analyze_anomaly_flags self [] = Inr []"
| "analyze_anomaly_flags self (flag # flags) =
     bindE (anomaly_flag_factor self flag) (\<lambda>f.
     bindE (analyze_anomaly_flags self flags) (\<lambda>fs. Inr (f # fs)))"

definition analyze_signal_quality :: "RiskScoringService \<Rightarrow> real \<Rightarrow> error + RiskFactors" where
  "analyze_signal_quality self quality_score =
     (let risk_score = 1 - quality_score;
          w = param_get (rs_params self) ''signal_quality_weight'' (1 / 10);
          explanation = [Lit ''Signal quality: '', Fixed 2 quality_score, Lit '' ('',
            Lit (if quality_score \<ge> SIGNAL_QUALITY_EXCELLENT (rs_thresholds self) then ''excellent''
                 else if quality_score \<ge> SIGNAL_QUALITY_GOOD (rs_thresholds self) then ''good''
                 else if quality_score \<ge> SIGNAL_QUALITY_USABLE (rs_thresholds self) then ''fair''
                 else ''poor''),
            Lit '')'']
      in RiskFactors_new ''Signal Quality'' risk_score w explanation
           (Some [(''quality_score'', AFloat quality_score),
                  (''usable_threshold'', AFloat (SIGNAL_QUALITY_USABLE (rs_thresholds self)))]))"

fun analyze_trends :: "RiskScoringService \<Rightarrow> (string \<times> real list) list \<Rightarrow> error + RiskFactors list" where
  "analyze_trends self [] = Inr []"
| "analyze_trends self ((metric_name, vals) # rest) =
     (if length vals < 3 then analyze_trends self rest
      else
        (let trend_direction = np_mean (np_diff vals) in
         if \<bar>trend_direction\<bar> > 1 / 10 then
           (let score = min 1 (\<bar>trend_direction\<bar> * 2);
                explanation = [Lit (title (replace_underscores metric_name)), Lit '' showing '',
                  Lit (if trend_direction > 0 then ''increasing'' else ''decreasing''), Lit '' trend '',
                  Lit ''(rate: '', Fixed 2 trend_direction, Lit '' units/min)'']
            in bindE (RiskFactors_new (''Trend Analysis: '' @ title (replace_underscores metric_name))
                        score (15 / 100) explanation (Some [(''trend_direction'', AFloat trend_direction)]))
                 (\<lambda>f. bindE (analyze_trends self rest) (\<lambda>fs. Inr (f # fs))))
         else analyze_trends self rest))"

definition calculate_overall_risk_score :: "RiskFactors list \<Rightarrow> real" where
  "calculate_overall_risk_score rfs =
     (if rfs = [] then 0
      else
        (let total_weighted_score = sum_list (map (\<lambda>f. factor_score f * weight f) rfs);
             total_weight = sum_list (map weight rfs)
         in if total_weight > 0 then max 0 (min 1 (total_weighted_score / total_weight)) else 0))"

definition determine_risk_level :: "RiskScoringService \<Rightarrow> real \<Rightarrow> RiskLevel" where
  "determine_risk_level self risk_score =
     (if risk_score \<ge> RISK_SCORE_HIGH (rs_thresholds self) then CRITICAL
      else if risk_score \<ge> RISK_SCORE_MODERATE (rs_thresholds self) then HIGH
      else if risk_score \<ge> RISK_SCORE_LOW (rs_thresholds self) then MODERATE
      else LOW)"

text \<open>
  \<^verbatim>\<open>sorted(..., key=..., reverse=True)\<close> is a stable sort by decreasing key: factors of equal
  key keep their order.
\<close>

definition generate_primary_concerns :: "RiskFactors list \<Rightarrow> fstring list" where
  "generate_primary_concerns rfs =
     (let sorted_factors = sort_key (\<lambda>f. - (factor_score f * weight f)) rfs;
          concerns = map rf_description (filter (\<lambda>f. factor_score f > 3 / 10) (take 3 sorted_factors))
      in if concerns = []
         then [[Lit ''No significant concerns identified - all metrics within normal ranges'']]
         else concerns)"

definition specific_action :: "RiskFactors \<Rightarrow> fstring list" where
  "specific_action factor =
     (if contains (lower (factor_name factor)) ''heart'' then
        [Lit ''Monitor heart rate trends closely - '' # rf_description factor]
      else if contains (lower (factor_name factor)) ''temperature'' then
        [Lit ''Monitor temperature trends closely - '' # rf_description factor]
      else [])"

definition generate_recommended_actions :: "real \<Rightarrow> RiskLevel \<Rightarrow> RiskFactors list \<Rightarrow> fstring list" where
  "generate_recommended_actions risk_score level rfs =
     (let actions =
            (if level = CRITICAL then
               [[Lit ''IMMEDIATE ACTION REQUIRED: Medical evaluation needed immediately''],
                [Lit ''Continuous monitoring recommended until risk level decreases'']]
             else if level = HIGH then
               [[Lit ''Close monitoring recommended for next 2-4 hours''],
                [Lit ''Consider medical consultation if risk factors persist'']]
             else if level = MODERATE then
               [[Lit ''Monitor closely for next 1-2 hours''],
                [Lit ''Review device status and signal quality'']]
             else [[Lit ''Continue routine monitoring - risk level is low'']]);
          high_risk_factors = filter (\<lambda>f. factor_score f > 6 / 10) rfs
      in actions @ concat (map specific_action (take 2 high_risk_factors)))"

definition calculate_confidence :: "RiskFactors list \<Rightarrow> RiskScoringRequest \<Rightarrow> real" where
  "calculate_confidence rfs request =
     (let c0 = 5 / 10;
          c1 = (if historical_trends request \<noteq> None \<and> historical_trends request \<noteq> Some [] then c0 + 2 / 10 else c0);
          c2 = (if signal_quality_score request \<noteq> None then c1 + 1 / 10 else c1);
          c3 = (if anomaly_flags request \<noteq> None \<and> anomaly_flags request \<noteq> Some [] then c2 + 1 / 10 else c2);
          c4 = (if length rfs \<ge> 3 then c3 + 1 / 10 else c3)
      in max 0 (min 1 c4))"

text \<open>
  \<^verbatim>\<open>calculate_risk\<close>. The method calls \<^verbatim>\<open>datetime.utcnow()\<close> twice: \<open>now1\<close> is what the first
  call returns (for \<^verbatim>\<open>valid_until\<close>), \<open>now2\<close> what the second returns (for \<^verbatim>\<open>assessed_at\<close>).
\<close>

definition calculate_risk ::
  "RiskScoringService \<Rightarrow> RiskScoringRequest \<Rightarrow> datetime \<Rightarrow> datetime \<Rightarrow> error + RiskScoringResponse" where
  "calculate_risk self request now1 now2 =
     bindE (analyze_vital_metrics self (vital_metrics request) (historical_trends request)) (\<lambda>vital_risk_factors.
     bindE (case anomaly_flags request of
              None \<Rightarrow> Inr []
            | Some flags \<Rightarrow> if flags = [] then Inr [] else analyze_anomaly_flags self flags) (\<lambda>anomaly_risk_factors.
     bindE (case signal_quality_score request of
              None \<Rightarrow> Inr []
            | Some q \<Rightarrow> bindE (analyze_signal_quality self q) (\<lambda>f. Inr [f])) (\<lambda>signal_quality_factor.
     bindE (case historical_trends request of
              None \<Rightarrow> Inr []
            | Some ht \<Rightarrow> if ht = [] then Inr [] else analyze_trends self ht) (\<lambda>trend_risk_factors.
     let rfs = vital_risk_factors @ anomaly_risk_factors @ signal_quality_factor @ trend_risk_factors;
         overall = calculate_overall_risk_score rfs;
         level = determine_risk_level self overall;
         concerns = generate_primary_concerns rfs;
         actions = generate_recommended_actions overall level rfs;
         conf = calculate_confidence rfs request;
         vu = now1 + timedelta_hours (min (time_window_hours request) 1)
     in RiskScoringResponse_new (rsq_device_id request) overall level rfs concerns actions
          conf now2 vu (Some (version_value (rs_model_version self)))))))"


section \<open>schemas/anomaly\_detection.py\<close>

datatype AnomalyType =
    HEART_RATE_ABNORMAL
  | TEMPERATURE_ABNORMAL
  | MOTION_ANOMALY
  | SIGNAL_LOSS
  | DEVICE_TAMPER
  | PATTERN_DEVIATION
  | UNKNOWN

record AnomalyResult =
  anomaly_type :: AnomalyType
  severity :: real
  confidence :: real
  description :: fstring
  detected_at :: datetime
  affected_metrics :: "string list"
  an_context :: "(string \<times> any) list option"

definition AnomalyResult_new ::
  "AnomalyType \<Rightarrow> real \<Rightarrow> real \<Rightarrow> fstring \<Rightarrow> datetime \<Rightarrow> string list \<Rightarrow> (string \<times> any) list option \<Rightarrow>
   error + AnomalyResult" where
  "AnomalyResult_new t s c d dt ms cx =
     (if \<not> (0 \<le> s \<and> s \<le> 1) then Inl (ValidationError ''severity'')
      else if \<not> (0 \<le> c \<and> c \<le> 1) then Inl (ValidationError ''confidence'')
      else Inr \<lparr> anomaly_type = t, severity = s, confidence = c, description = d, detected_at = dt,
                 affected_metrics = ms, an_context = cx \<rparr>)"

record AnomalyDetectionRequest =
  adq_device_id :: string
  adq_inmate_device_id :: "string option"
  time_series_data :: "(string \<times> real list) list"
  timestamps :: "datetime list"
  baseline_stats :: "(string \<times> (string \<times> real) list) list option"
  adq_metadata :: "(string \<times> any) list option"

record AnomalyDetectionResponse =
  adr_device_id :: string
  anomalies_detected :: bool
  anomaly_count :: int
  anomalies :: "AnomalyResult list"
  adr_overall_risk_score :: real
  adr_processed_at :: datetime
  adr_model_version :: "string option"

definition AnomalyDetectionResponse_new ::
  "string \<Rightarrow> bool \<Rightarrow> int \<Rightarrow> AnomalyResult list \<Rightarrow> real \<Rightarrow> datetime \<Rightarrow> string option \<Rightarrow>
   error + AnomalyDetectionResponse" where
  "AnomalyDetectionResponse_new d b n anoms s t mv =
     (if \<not> 0 \<le> n then Inl (ValidationError ''anomaly_count'')
      else if \<not> (0 \<le> s \<and> s \<le> 1) then Inl (ValidationError ''overall_risk_score'')
      else Inr \<lparr> adr_device_id = d, anomalies_detected = b, anomaly_count = n, anomalies = anoms,
                 adr_overall_risk_score = s, adr_processed_at = t, adr_model_version = mv \<rparr>)"


section \<open>services/anomaly\_detection\_service.py\<close>

record AnomalyDetectionService =
  ad_model_version :: ModelVersion
  ad_config :: ModelConfig
  ad_thresholds :: AlertThresholds

definition AnomalyDetectionService_init :: "registry \<Rightarrow> (error + AnomalyDetectionService) \<times> registry" where
  "AnomalyDetectionService_init reg =
     (case get_latest_model_version ''anomaly_detection'' of
        Inl e \<Rightarrow> (Inl e, reg)
      | Inr v \<Rightarrow>
          (case get_model_config v reg of
             (Inl e, reg') \<Rightarrow> (Inl e, reg')
           | (Inr c, reg') \<Rightarrow>
               (Inr \<lparr> ad_model_version = v, ad_config = c, ad_thresholds = thresholds c \<rparr>, reg')))"

text \<open>\<^verbatim>\<open>xs[i]\<close> for an index that is not negative.\<close>

definition item :: "'a list \<Rightarrow> nat \<Rightarrow> error + 'a" where
  "item xs i = (if i < length xs then Inr (xs ! i) else Inl IndexError)"

definition determine_anomaly_type :: "string \<Rightarrow> real \<Rightarrow> real \<Rightarrow> AnomalyType" where
  "determine_anomaly_type metric_name val baseline_mean =
     (let metric_lower = lower metric_name in
      if contains metric_lower ''heart'' \<or> contains metric_lower ''hr'' then HEART_RATE_ABNORMAL
      else if contains metric_lower ''temp'' then TEMPERATURE_ABNORMAL
      else if contains metric_lower ''motion'' \<or> contains metric_lower ''imu'' then MOTION_ANOMALY
      else UNKNOWN)"

definition generate_explanation ::
  "AnomalyDetectionService \<Rightarrow> string \<Rightarrow> real \<Rightarrow> real \<Rightarrow> real \<Rightarrow> real \<Rightarrow> fstring" where
  "generate_explanation self metric_name val baseline_mean baseline_std z_score =
     (let deviation = val - baseline_mean;
          deviation_pct = (if baseline_mean \<noteq> 0 then deviation / baseline_mean * 100 else 0);
          severity_desc =
            (if \<bar>deviation_pct\<bar> > 50 then ''significant''
             else if \<bar>deviation_pct\<bar> > 25 then ''moderate''
             else ''slight'');
          direction = (if deviation > 0 then ''above'' else ''below'')
      in [Lit (title (replace_underscores metric_name)), Lit '' anomaly detected: '',
          Lit ''value '', Fixed 2 val, Lit '' is '', Lit severity_desc, Lit ''ly '', Lit direction,
          Lit '' baseline '', Lit ''(baseline: '', Fixed 2 baseline_mean, Lit plus_minus_sign,
          Fixed 2 baseline_std, Lit '', '', Lit ''Z-score: '', Fixed 2 z_score, Lit '', threshold: '',
          Fixed 1 (Z_SCORE_THRESHOLD (ad_thresholds self)), Lit '')''])"

text \<open>
  The body of the loop over \<^verbatim>\<open>outlier_indices\<close>: \<open>None\<close> is the \<^verbatim>\<open>continue\<close> of a
  confidence below the minimum. \<^verbatim>\<open>z_score\<close> and the threshold are Python floats there, so
  a threshold of zero raises.
\<close>

definition outlier_anomaly ::
  "AnomalyDetectionService \<Rightarrow> string \<Rightarrow> real list \<Rightarrow> datetime list \<Rightarrow> real \<Rightarrow> real \<Rightarrow> real list \<Rightarrow> nat \<Rightarrow>
   error + AnomalyResult option" where
  "outlier_anomaly self metric_name vals ts baseline_mean baseline_std z_scores idx =
     (let z_score_threshold = Z_SCORE_THRESHOLD (ad_thresholds self);
          val = vals ! idx;
          z_score = z_scores ! idx
      in if z_score_threshold * 2 = 0 then Inl ZeroDivisionError
         else
           (let sev = min 1 (z_score / (z_score_threshold * 2));
                conf = min 1 (7 / 10 + (z_score - z_score_threshold) * (1 / 10))
            in if conf < MIN_CONFIDENCE_FOR_ALERT (ad_thresholds self) then Inr None
               else
                 (let atype = determine_anomaly_type metric_name val baseline_mean;
                      descr = generate_explanation self metric_name val baseline_mean baseline_std z_score
                  in bindE (item ts idx) (\<lambda>dt.
                     bindE (AnomalyResult_new atype sev conf descr dt [metric_name]
                              (Some [(''baseline_mean'', AFloat baseline_mean),
                                     (''baseline_std'', AFloat baseline_std),
                                     (''detected_value'', AFloat val),
                                     (''z_score'', AFloat z_score),
                                     (''z_score_threshold'', AFloat z_score_threshold),
                                     (''model_version'', AStr (version_value (ad_model_version self))),
                                     (''explanation'', AText descr)]))
                       (\<lambda>a. Inr (Some a))))))"

fun outlier_loop ::
  "AnomalyDetectionService \<Rightarrow> string \<Rightarrow> real list \<Rightarrow> datetime list \<Rightarrow> real \<Rightarrow> real \<Rightarrow> real list \<Rightarrow> nat list \<Rightarrow>
   error + AnomalyResult list" where
  "outlier_loop self metric_name vals ts baseline_mean baseline_std z_scores [] = Inr []"
| "outlier_loop self metric_name vals ts baseline_mean baseline_std z_scores (idx # rest) =
     bindE (outlier_anomaly self metric_name vals ts baseline_mean baseline_std z_scores idx) (\<lambda>r.
     bindE (outlier_loop self metric_name vals ts baseline_mean baseline_std z_scores rest) (\<lambda>anoms.
     Inr (case r of None \<Rightarrow> anoms | Some a \<Rightarrow> a # anoms)))"

text \<open>
  \<^verbatim>\<open>np.convolve(a, v, mode="valid")\<close> for \<open>length v \<le> length a\<close>: entry \<open>k\<close> is the sum of
  \<open>a[k + j] * v[length v - 1 - j]\<close>.
\<close>

definition np_convolve_valid :: "real list \<Rightarrow> real list \<Rightarrow> real list" where
  "np_convolve_valid a v =
     map (\<lambda>k. sum_list (map (\<lambda>(x, y). x * y) (zip (take (length v) (drop k a)) (rev v))))
       [0 ..< length a - length v + 1]"

text \<open>
  The body of the loop of \<^verbatim>\<open>_detect_trend_anomalies\<close>. \<^verbatim>\<open>change\<close> is a numpy
  \<^verbatim>\<open>float64\<close>, and positive where it is divided: dividing it by zero gives \<^verbatim>\<open>inf\<close> and no
  exception, and \<^verbatim>\<open>min(1.0, inf)\<close> is \<^verbatim>\<open>1.0\<close>.
\<close>

definition trend_anomaly ::
  "AnomalyDetectionService \<Rightarrow> string \<Rightarrow> datetime list \<Rightarrow> real \<Rightarrow> nat \<Rightarrow> real list \<Rightarrow> nat \<Rightarrow>
   error + AnomalyResult option" where
  "trend_anomaly self metric_name ts baseline_mean window_size rolling_mean i =
     (let trend_threshold = TREND_CHANGE_THRESHOLD (ad_thresholds self);
          change = \<bar>rolling_mean ! i - rolling_mean ! (i - 1)\<bar>;
          threshold = \<bar>baseline_mean\<bar> * trend_threshold
      in if change > threshold then
           (let sev = (if \<bar>baseline_mean\<bar> * (5 / 10) = 0 then 1
                       else min 1 (change / (\<bar>baseline_mean\<bar> * (5 / 10))));
                conf = (if threshold = 0 then 1
                        else min 1 (75 / 100 + (change / threshold - 1) * (1 / 10)))
            in if conf < MIN_CONFIDENCE_FOR_ALERT (ad_thresholds self) then Inr None
               else
                 (let explanation = [Lit ''Sudden change in '', Lit metric_name, Lit '': '', Fixed 2 change,
                        Lit '' '', Lit ''(threshold: '', Fixed 2 threshold, Lit '', baseline: '',
                        Fixed 2 baseline_mean, Lit '')'']
                  in bindE (item ts (i + window_size - 1)) (\<lambda>dt.
                     bindE (AnomalyResult_new PATTERN_DEVIATION sev conf explanation dt [metric_name]
                              (Some [(''change_magnitude'', AFloat change),
                                     (''baseline_mean'', AFloat baseline_mean),
                                     (''threshold'', AFloat threshold),
                                     (''model_version'', AStr (version_value (ad_model_version self))),
                                     (''explanation'', AText explanation)]))
                       (\<lambda>a. Inr (Some a)))))
         else Inr None)"

fun trend_loop ::
  "AnomalyDetectionService \<Rightarrow> string \<Rightarrow> datetime list \<Rightarrow> real \<Rightarrow> nat \<Rightarrow> real list \<Rightarrow> nat list \<Rightarrow>
   error + AnomalyResult list" where
  "trend_loop self metric_name ts baseline_mean window_size rolling_mean [] = Inr []"
| "trend_loop self metric_name ts baseline_mean window_size rolling_mean (i # rest) =
     bindE (trend_anomaly self metric_name ts baseline_mean window_size rolling_mean i) (\<lambda>r.
     bindE (trend_loop self metric_name ts baseline_mean window_size rolling_mean rest) (\<lambda>anoms.
     Inr (case r of None \<Rightarrow> anoms | Some a \<Rightarrow> a # anoms)))"

definition detect_trend_anomalies ::
  "AnomalyDetectionService \<Rightarrow> string \<Rightarrow> real list \<Rightarrow> datetime list \<Rightarrow> real \<Rightarrow> error + AnomalyResult list" where
  "detect_trend_anomalies self metric_name vals ts baseline_mean =
     (if length vals < 5 then Inr []
      else
        (let window_size = min 3 (length vals div 2);
             rolling_mean = np_convolve_valid vals (replicate window_size (1 / real window_size))
         in trend_loop self metric_name ts baseline_mean window_size rolling_mean
              [1 ..< length rolling_mean]))"

text \<open>
  \<^verbatim>\<open>baseline_stats[metric_name].get("mean", np.mean(values_array))\<close>, taken when
  \<^verbatim>\<open>baseline_stats\<close> is given and has the metric.
\<close>

definition baseline_of ::
  "(string \<times> (string \<times> real) list) list option \<Rightarrow> string \<Rightarrow> real list \<Rightarrow> real \<times> real" where
  "baseline_of bstats metric_name vals =
     (case (case bstats of None \<Rightarrow> None | Some d \<Rightarrow> map_of d metric_name) of
        Some st \<Rightarrow>
          ((case map_of st ''mean'' of Some m \<Rightarrow> m | None \<Rightarrow> np_mean vals),
           (case map_of st ''std'' of Some sd \<Rightarrow> sd | None \<Rightarrow> np_std vals))
      | None \<Rightarrow> (np_mean vals, np_std vals))"

text \<open>
  Line 101, the array \<^verbatim>\<open>z_scores\<close>. The quotient is exact here and rounded in numpy, so an
  entry can differ from the \<^verbatim>\<open>float64\<close> that the service compares with the threshold by a
  rounding error: for the values \<^verbatim>\<open>[0.1, 0.4, 0.1]\<close> over the baseline \<^verbatim>\<open>(0.1, 0.1)\<close> the
  second entry is \<open>3\<close> here and \<^verbatim>\<open>3.0000000000000004\<close> there. What follows line 101 takes the
  array as an argument.
\<close>

definition z_scores_of :: "real list \<Rightarrow> real \<Rightarrow> real \<Rightarrow> real list" where
  "z_scores_of vals baseline_mean baseline_std =
     (if baseline_std > 0 then map (\<lambda>v. \<bar>(v - baseline_mean) / baseline_std\<bar>) vals
      else map (\<lambda>v. 0) vals)"

text \<open>\<^verbatim>\<open>np.where(z_scores > z_score_threshold)[0]\<close>: the indices, ascending.\<close>

definition outlier_indices_of :: "real list \<Rightarrow> real \<Rightarrow> nat list" where
  "outlier_indices_of z_scores z_score_threshold =
     filter (\<lambda>i. z_scores ! i > z_score_threshold) [0 ..< length z_scores]"

definition detect_metric_anomalies ::
  "AnomalyDetectionService \<Rightarrow> string \<Rightarrow> real list \<Rightarrow> datetime list \<Rightarrow>
   (string \<times> (string \<times> real) list) list option \<Rightarrow> error + AnomalyResult list" where
  "detect_metric_anomalies self metric_name vals ts bstats =
     (if length vals < 3 then Inr []
      else
        (let (baseline_mean, baseline_std) = baseline_of bstats metric_name vals;
             z_score_threshold = Z_SCORE_THRESHOLD (ad_thresholds self);
             z_scores = z_scores_of vals baseline_mean baseline_std;
             outlier_indices = outlier_indices_of z_scores z_score_threshold
         in bindE (outlier_loop self metric_name vals ts baseline_mean baseline_std z_scores outlier_indices)
              (\<lambda>outliers.
            bindE (if length vals \<ge> 5 then detect_trend_anomalies self metric_name vals ts baseline_mean
                   else Inr [])
              (\<lambda>trend_anomalies. Inr (outliers @ trend_anomalies)))))"

definition cross_anomaly ::
  "AnomalyDetectionService \<Rightarrow> real list \<Rightarrow> real list \<Rightarrow> datetime list \<Rightarrow> nat \<Rightarrow> error + AnomalyResult option" where
  "cross_anomaly self hr_values temp_values ts i =
     (let hr_mean = np_mean hr_values;
          temp_mean = np_mean temp_values;
          hr_threshold = hr_mean * (12 / 10);
          temp_threshold = temp_mean * (11 / 10);
          hr_spike = (hr_values ! i > hr_threshold);
          temp_spike = (temp_values ! i > temp_threshold)
      in if hr_spike \<and> temp_spike then
           (let conf = 8 / 10;
                explanation = [Lit ''Simultaneous elevation detected: '',
                  Lit ''heart rate '', Fixed 0 (hr_values ! i), Lit '' bpm (normal: '', Fixed 0 hr_mean,
                  Lit plus_minus_sign, Fixed 0 (np_std hr_values), Lit ''), '',
                  Lit ''temperature '', Fixed 2 (temp_values ! i), Lit (degree_sign @ ''C (normal: ''),
                  Fixed 2 temp_mean, Lit plus_minus_sign, Fixed 2 (np_std temp_values), Lit '')'']
            in bindE (item ts i) (\<lambda>dt.
               bindE (AnomalyResult_new PATTERN_DEVIATION (7 / 10) conf explanation dt
                        [''heart_rate'', ''temperature'']
                        (Some [(''heart_rate_value'', AFloat (hr_values ! i)),
                               (''temperature_value'', AFloat (temp_values ! i)),
                               (''heart_rate_threshold'', AFloat hr_threshold),
                               (''temperature_threshold'', AFloat temp_threshold),
                               (''model_version'', AStr (version_value (ad_model_version self))),
                               (''explanation'', AText explanation)]))
                 (\<lambda>a. Inr (Some a))))
         else Inr None)"

fun cross_loop ::
  "AnomalyDetectionService \<Rightarrow> real list \<Rightarrow> real list \<Rightarrow> datetime list \<Rightarrow> nat list \<Rightarrow> error + AnomalyResult list" where
  "cross_loop self hr_values temp_values ts [] = Inr []"
| "cross_loop self hr_values temp_values ts (i # rest) =
     bindE (cross_anomaly self hr_values temp_values ts i) (\<lambda>r.
     bindE (cross_loop self hr_values temp_values ts rest) (\<lambda>anoms.
     Inr (case r of None \<Rightarrow> anoms | Some a \<Rightarrow> a # anoms)))"

definition detect_cross_metric_anomalies ::
  "AnomalyDetectionService \<Rightarrow> (string \<times> real list) list \<Rightarrow> datetime list \<Rightarrow> error + AnomalyResult list" where
  "detect_cross_metric_anomalies self tsd ts =
     (case (map_of tsd ''heart_rate'', map_of tsd ''temperature'') of
        (Some hr_values, Some temp_values) \<Rightarrow>
          if length hr_values = length temp_values \<and> length hr_values > 0
          then cross_loop self hr_values temp_values ts [0 ..< length hr_values]
          else Inr []
      | _ \<Rightarrow> Inr [])"

definition calculate_overall_risk :: "AnomalyResult list \<Rightarrow> real" where
  "calculate_overall_risk anoms =
     (if anoms = [] then 0
      else
        (let total_weighted_severity = sum_list (map (\<lambda>a. severity a * confidence a) anoms);
             total_weight = sum_list (map confidence anoms)
         in if total_weight > 0 then min 1 (total_weighted_severity / total_weight) else 0))"

text \<open>The loop of \<^verbatim>\<open>detect_anomalies\<close> over the items of \<^verbatim>\<open>time_series_data\<close>.\<close>

fun metrics_loop ::
  "AnomalyDetectionService \<Rightarrow> datetime list \<Rightarrow> (string \<times> (string \<times> real) list) list option \<Rightarrow>
   (string \<times> real list) list \<Rightarrow> error + AnomalyResult list" where
  "metrics_loop self ts bstats [] = Inr []"
| "metrics_loop self ts bstats ((metric_name, vals) # rest) =
     bindE (detect_metric_anomalies self metric_name vals ts bstats) (\<lambda>metric_anomalies.
     bindE (metrics_loop self ts bstats rest) (\<lambda>anoms. Inr (metric_anomalies @ anoms)))"

definition detect_anomalies ::
  "AnomalyDetectionService \<Rightarrow> AnomalyDetectionRequest \<Rightarrow> datetime \<Rightarrow> error + AnomalyDetectionResponse" where
  "detect_anomalies self request now =
     bindE (metrics_loop self (timestamps request) (baseline_stats request) (time_series_data request))
       (\<lambda>per_metric.
     bindE (detect_cross_metric_anomalies self (time_series_data request) (timestamps request))
       (\<lambda>cross_metric_anomalies.
     let anoms = per_metric @ cross_metric_anomalies;
         overall = calculate_overall_risk anoms
     in AnomalyDetectionResponse_new (adq_device_id request) (length anoms > 0) (int (length anoms)) anoms overall
          now (Some (version_value (ad_model_version self)))))"


section \<open>schemas/signal\_quality.py\<close>

record SignalQualityMetrics =
  snr :: real
  rms_error :: real
  peak_detection_confidence :: real
  baseline_drift :: real
  motion_artifact_score :: real

definition SignalQualityMetrics_new :: "real \<Rightarrow> real \<Rightarrow> real \<Rightarrow> real \<Rightarrow> real \<Rightarrow> error + SignalQualityMetrics" where
  "SignalQualityMetrics_new s r p b m =
     (if \<not> (- 50 \<le> s \<and> s \<le> 100) then Inl (ValidationError ''snr'')
      else if \<not> 0 \<le> r then Inl (ValidationError ''rms_error'')
      else if \<not> (0 \<le> p \<and> p \<le> 1) then Inl (ValidationError ''peak_detection_confidence'')
      else if \<not> 0 \<le> b then Inl (ValidationError ''baseline_drift'')
      else if \<not> (0 \<le> m \<and> m \<le> 1) then Inl (ValidationError ''motion_artifact_score'')
      else Inr \<lparr> snr = s, rms_error = r, peak_detection_confidence = p, baseline_drift = b,
                 motion_artifact_score = m \<rparr>)"

record SignalQualityRequest =
  sqq_device_id :: string
  signal_data :: "real list"
  sampling_rate :: real
  signal_type :: string
  recorded_at :: datetime
  sqq_metadata :: "(string \<times> any) list option"

record SignalQualityResponse =
  sqr_device_id :: string
  quality_score :: real
  quality_grade :: string
  metrics :: SignalQualityMetrics
  is_usable :: bool
  recommendations :: "fstring list"
  sqr_processed_at :: datetime
  sqr_model_version :: "string option"

definition SignalQualityResponse_new ::
  "string \<Rightarrow> real \<Rightarrow> string \<Rightarrow> SignalQualityMetrics \<Rightarrow> bool \<Rightarrow> fstring list \<Rightarrow> datetime \<Rightarrow> string option \<Rightarrow>
   error + SignalQualityResponse" where
  "SignalQualityResponse_new d q g m u rs t mv =
     (if \<not> (0 \<le> q \<and> q \<le> 1) then Inl (ValidationError ''quality_score'')
      else if g \<notin> {''excellent'', ''good'', ''fair'', ''poor''} then Inl (ValidationError ''quality_grade'')
      else Inr \<lparr> sqr_device_id = d, quality_score = q, quality_grade = g, metrics = m, is_usable = u,
                 recommendations = rs, sqr_processed_at = t, sqr_model_version = mv \<rparr>)"


section \<open>services/signal\_quality\_service.py\<close>

record SignalQualityService =
  sq_model_version :: ModelVersion
  sq_config :: ModelConfig
  sq_thresholds :: AlertThresholds
  sq_params :: "(string \<times> real) list"

definition SignalQualityService_init :: "registry \<Rightarrow> (error + SignalQualityService) \<times> registry" where
  "SignalQualityService_init reg =
     (case get_latest_model_version ''signal_quality'' of
        Inl e \<Rightarrow> (Inl e, reg)
      | Inr v \<Rightarrow>
          (case get_model_config v reg of
             (Inl e, reg') \<Rightarrow> (Inl e, reg')
           | (Inr c, reg') \<Rightarrow>
               (Inr \<lparr> sq_model_version = v, sq_config = c, sq_thresholds = thresholds c,
                      sq_params = parameters (metadata c) \<rparr>, reg')))"

text \<open>
  \<^verbatim>\<open>_calculate_snr\<close>. The noise estimate is exact here: it is \<open>0\<close> for every signal with
  equal differences. The \<^verbatim>\<open>float64\<close> estimate of the service is \<open>0\<close> when the differences and
  their mean are computed without rounding, as for \<^verbatim>\<open>[1, 2, 3]\<close>, and can be positive
  otherwise, as for \<^verbatim>\<open>[0.1, 0.2, 0.3]\<close>, whose computed differences are \<^verbatim>\<open>0.1\<close> and
  \<^verbatim>\<open>0.09999999999999998\<close> and whose SNR is the upper clamp.
\<close>

definition calculate_snr :: "real list \<Rightarrow> real" where
  "calculate_snr signal =
     (let signal_power = np_mean (map (\<lambda>x. x\<^sup>2) signal);
          noise_estimate = (np_std (np_diff signal))\<^sup>2
      in if noise_estimate > 0 then
           (let snr_db = 10 * log 10 (signal_power / noise_estimate)
            in max (- 50) (min 100 snr_db))
         else 20)"

definition calculate_rms_error :: "real list \<Rightarrow> real" where
  "calculate_rms_error signal =
     (if np_mean (map abs signal) > 0 then np_std signal / np_mean (map abs signal) else 1 / 10)"

definition calculate_peak_confidence :: "real list \<Rightarrow> real" where
  "calculate_peak_confidence signal =
     (if length signal < 3 then 5 / 10
      else
        (let peaks = length (filter (\<lambda>i. signal ! i > signal ! (i - 1) \<and> signal ! i > signal ! (i + 1))
                               [1 ..< length signal - 1]);
             expected_peaks = real (length signal) / 10
         in if expected_peaks > 0 then min 1 (real peaks / expected_peaks) else 5 / 10))"

text \<open>
  \<^verbatim>\<open>np.polyfit(x, y, 1)[0]\<close>: the slope of the least-squares line through the points
  \<open>(x\<^sub>i, y\<^sub>i)\<close>.
\<close>

definition np_polyfit1_slope :: "real list \<Rightarrow> real list \<Rightarrow> real" where
  "np_polyfit1_slope xs ys =
     sum_list (map (\<lambda>(x, y). (x - np_mean xs) * (y - np_mean ys)) (zip xs ys))
       / sum_list (map (\<lambda>x. (x - np_mean xs)\<^sup>2) xs)"

definition calculate_baseline_drift :: "real list \<Rightarrow> real" where
  "calculate_baseline_drift signal =
     (if length signal < 2 then 0
      else
        (let x = map real [0 ..< length signal];
             slope = np_polyfit1_slope x signal
         in \<bar>slope\<bar> * real (length signal)))"

definition calculate_motion_artifact :: "real list \<Rightarrow> string \<Rightarrow> real" where
  "calculate_motion_artifact signal stype =
     (if length signal < 3 then 5 / 10
      else
        (let diff_signal = np_diff signal;
             high_freq_energy = np_std diff_signal;
             threshold =
               (if stype = ''ppg'' then np_std signal * (1 / 10)
                else if stype = ''temperature'' then np_std signal * (5 / 100)
                else np_std signal * (2 / 10))
         in if threshold > 0 then min 1 (high_freq_energy / threshold) else 5 / 10))"

definition calculate_quality_score ::
  "SignalQualityService \<Rightarrow> real \<Rightarrow> real \<Rightarrow> real \<Rightarrow> real \<Rightarrow> real \<Rightarrow> error + real" where
  "calculate_quality_score self snr_db rms peak_confidence drift motion_artifact =
     (let snr_normalized = min 1 (max 0 ((snr_db + 10) / 30));
          rms_normalized = max 0 (min 1 (1 - rms / (1 / 10)));
          drift_normalized = max 0 (min 1 (1 - drift / (1 / 10)));
          motion_normalized = 1 - motion_artifact
      in bindE (param (sq_params self) ''snr_weight'') (\<lambda>w_snr.
         bindE (param (sq_params self) ''rms_weight'') (\<lambda>w_rms.
         bindE (param (sq_params self) ''peak_confidence_weight'') (\<lambda>w_peak.
         bindE (param (sq_params self) ''baseline_drift_weight'') (\<lambda>w_drift.
         bindE (param (sq_params self) ''motion_artifact_weight'') (\<lambda>w_motion.
         let q = w_snr * snr_normalized + w_rms * rms_normalized + w_peak * peak_confidence
                   + w_drift * drift_normalized + w_motion * motion_normalized
         in Inr (max 0 (min 1 q))))))))"

definition determine_quality_grade :: "SignalQualityService \<Rightarrow> real \<Rightarrow> string" where
  "determine_quality_grade self q =
     (if q \<ge> SIGNAL_QUALITY_EXCELLENT (sq_thresholds self) then ''excellent''
      else if q \<ge> SIGNAL_QUALITY_GOOD (sq_thresholds self) then ''good''
      else if q \<ge> SIGNAL_QUALITY_USABLE (sq_thresholds self) then ''fair''
      else ''poor'')"

definition generate_recommendations ::
  "SignalQualityService \<Rightarrow> real \<Rightarrow> real \<Rightarrow> real \<Rightarrow> real \<Rightarrow> real \<Rightarrow> real \<Rightarrow> fstring list" where
  "generate_recommendations self snr_db rms peak_confidence drift motion_artifact q =
     (let rs =
            (if snr_db < 15 then
               [[Lit ''Low signal-to-noise ratio detected ('', Fixed 1 snr_db, Lit '' dB, threshold: 15 dB). '',
                 Lit ''Check device positioning and connection quality.'']]
             else [])
          @ (if rms > 1 / 10 then
               [[Lit ''High RMS error detected ('', Fixed 3 rms, Lit '', threshold: 0.1). '',
                 Lit ''Verify sensor contact and calibration.'']]
             else [])
          @ (if peak_confidence < 7 / 10 then
               [[Lit ''Low peak detection confidence ('', Fixed 2 peak_confidence, Lit '', threshold: 0.7). '',
                 Lit ''Ensure stable device placement.'']]
             else [])
          @ (if drift > 1 / 10 then
               [[Lit ''Significant baseline drift detected ('', Fixed 3 drift, Lit '', threshold: 0.1). '',
                 Lit ''Check for environmental interference.'']]
             else [])
          @ (if motion_artifact > 3 / 10 then
               [[Lit ''Motion artifacts detected (score: '', Fixed 2 motion_artifact, Lit '', threshold: 0.3). '',
                 Lit ''Ensure device is securely fastened.'']]
             else [])
          @ (if q < SIGNAL_QUALITY_USABLE (sq_thresholds self) then
               [[Lit ''Overall signal quality is below acceptable threshold '',
                 Lit ''('', Fixed 2 q, Lit '', required: '', Fixed 2 (SIGNAL_QUALITY_USABLE (sq_thresholds self)),
                 Lit ''). '', Lit ''Review device status and connection.'']]
             else [])
      in if rs = [] then
           [[Lit ''Signal quality is acceptable for analysis '',
             Lit ''(score: '', Fixed 2 q, Lit '', grade: '', Lit (determine_quality_grade self q), Lit '')'']]
         else rs)"

definition assess_quality ::
  "SignalQualityService \<Rightarrow> SignalQualityRequest \<Rightarrow> datetime \<Rightarrow> error + SignalQualityResponse" where
  "assess_quality self request now =
     (let signal_array = signal_data request;
          snr_db = calculate_snr signal_array;
          rms = calculate_rms_error signal_array;
          peak_confidence = calculate_peak_confidence signal_array;
          drift = calculate_baseline_drift signal_array;
          motion_artifact = calculate_motion_artifact signal_array (signal_type request)
      in bindE (calculate_quality_score self snr_db rms peak_confidence drift motion_artifact) (\<lambda>q.
         let grade = determine_quality_grade self q;
             usable = (q \<ge> SIGNAL_QUALITY_USABLE (sq_thresholds self));
             recs = generate_recommendations self snr_db rms peak_confidence drift motion_artifact q
         in bindE (SignalQualityMetrics_new snr_db rms peak_confidence drift motion_artifact) (\<lambda>m.
            SignalQualityResponse_new (sqq_device_id request) q grade m usable recs now
              (Some (version_value (sq_model_version self))))))"


section \<open>The singleton services and the endpoints of routers/\<close>

text \<open>
  \<^verbatim>\<open>get_signal_quality_service\<close>, \<^verbatim>\<open>get_anomaly_detection_service\<close> and
  \<^verbatim>\<open>get_risk_scoring_service\<close>: the module-level variable that holds the service is the
  first component of the state, the registry the second. A constructor that raises leaves
  the variable at \<^verbatim>\<open>None\<close>.
\<close>

datatype http_error = HTTPException nat string error

definition get_signal_quality_service ::
  "SignalQualityService option \<times> registry \<Rightarrow>
   (error + SignalQualityService) \<times> (SignalQualityService option \<times> registry)" where
  "get_signal_quality_service st =
     (case fst st of
        Some service \<Rightarrow> (Inr service, st)
      | None \<Rightarrow>
          (case SignalQualityService_init (snd st) of
             (Inl e, reg') \<Rightarrow> (Inl e, (None, reg'))
           | (Inr service, reg') \<Rightarrow> (Inr service, (Some service, reg'))))"

definition get_anomaly_detection_service ::
  "AnomalyDetectionService option \<times> registry \<Rightarrow>
   (error + AnomalyDetectionService) \<times> (AnomalyDetectionService option \<times> registry)" where
  "get_anomaly_detection_service st =
     (case fst st of
        Some service \<Rightarrow> (Inr service, st)
      | None \<Rightarrow>
          (case AnomalyDetectionService_init (snd st) of
             (Inl e, reg') \<Rightarrow> (Inl e, (None, reg'))
           | (Inr service, reg') \<Rightarrow> (Inr service, (Some service, reg'))))"

definition get_risk_scoring_service ::
  "RiskScoringService option \<times> registry \<Rightarrow>
   (error + RiskScoringService) \<times> (RiskScoringService option \<times> registry)" where
  "get_risk_scoring_service st =
     (case fst st of
        Some service \<Rightarrow> (Inr service, st)
      | None \<Rightarrow>
          (case RiskScoringService_init (snd st) of
             (Inl e, reg') \<Rightarrow> (Inl e, (None, reg'))
           | (Inr service, reg') \<Rightarrow> (Inr service, (Some service, reg'))))"

text \<open>
  The endpoints of \<^verbatim>\<open>routers/\<close>: every exception becomes an \<^verbatim>\<open>HTTPException\<close> of status 500
  whose detail is the prefix followed by the message of the exception.
\<close>

definition assess_signal_quality ::
  "SignalQualityRequest \<Rightarrow> datetime \<Rightarrow> SignalQualityService option \<times> registry \<Rightarrow>
   (http_error + SignalQualityResponse) \<times> (SignalQualityService option \<times> registry)" where
  "assess_signal_quality request now st =
     (case get_signal_quality_service st of
        (Inl e, st') \<Rightarrow> (Inl (HTTPException 500 ''Error assessing signal quality: '' e), st')
      | (Inr service, st') \<Rightarrow>
          (case assess_quality service request now of
             Inl e \<Rightarrow> (Inl (HTTPException 500 ''Error assessing signal quality: '' e), st')
           | Inr response \<Rightarrow> (Inr response, st')))"

definition detect_anomalies_router ::
  "AnomalyDetectionRequest \<Rightarrow> datetime \<Rightarrow> AnomalyDetectionService option \<times> registry \<Rightarrow>
   (http_error + AnomalyDetectionResponse) \<times> (AnomalyDetectionService option \<times> registry)" where
  "detect_anomalies_router request now st =
     (case get_anomaly_detection_service st of
        (Inl e, st') \<Rightarrow> (Inl (HTTPException 500 ''Error detecting anomalies: '' e), st')
      | (Inr service, st') \<Rightarrow>
          (case detect_anomalies service request now of
             Inl e \<Rightarrow> (Inl (HTTPException 500 ''Error detecting anomalies: '' e), st')
           | Inr response \<Rightarrow> (Inr response, st')))"

definition calculate_risk_score ::
  "RiskScoringRequest \<Rightarrow> datetime \<Rightarrow> datetime \<Rightarrow> RiskScoringService option \<times> registry \<Rightarrow>
   (http_error + RiskScoringResponse) \<times> (RiskScoringService option \<times> registry)" where
  "calculate_risk_score request now1 now2 st =
     (case get_risk_scoring_service st of
        (Inl e, st') \<Rightarrow> (Inl (HTTPException 500 ''Error calculating risk score: '' e), st')
      | (Inr service, st') \<Rightarrow>
          (case calculate_risk service request now1 now2 of
             Inl e \<Rightarrow> (Inl (HTTPException 500 ''Error calculating risk score: '' e), st')
           | Inr response \<Rightarrow> (Inr response, st')))"


section \<open>Requests and predicates of the properties\<close>

text \<open>
  The risk scoring request of the scenario: heart rate 95, temperature 37.2, oxygen
  saturation 96, no trends, no flags, signal quality 0.85, a window of 24 hours.
\<close>

definition scenario_request :: RiskScoringRequest where
  "scenario_request = \<lparr>
     rsq_device_id = ''dev-001'',
     rsq_inmate_device_id = None,
     vital_metrics = [(''heart_rate'', 95), (''temperature'', 372 / 10), (''oxygen_saturation'', 96)],
     historical_trends = None,
     anomaly_flags = None,
     signal_quality_score = Some (85 / 100),
     time_window_hours = 24,
     rsq_metadata = None \<rparr>"

text \<open>Both numbers of a risk factor are in the unit interval.\<close>

definition unit_factor :: "RiskFactors \<Rightarrow> bool" where
  "unit_factor f \<longleftrightarrow> 0 \<le> factor_score f \<and> factor_score f \<le> 1 \<and> 0 \<le> weight f \<and> weight f \<le> 1"


text \<open>
  The service that \<^verbatim>\<open>AnomalyDetectionService()\<close> builds from \<open>MODEL_REGISTRY\<close>.
\<close>

definition anomaly_service :: AnomalyDetectionService where
  "anomaly_service = \<lparr> ad_model_version = ANOMALY_DETECTION_V1, ad_config = ANOMALY_DETECTION_V1_config,
     ad_thresholds = AlertThresholds_default \<rparr>"

text \<open>
  Severity and confidence of an anomaly are in the unit interval.
\<close>

definition unit_anomaly :: "AnomalyResult \<Rightarrow> bool" where
  "unit_anomaly a \<longleftrightarrow> 0 \<le> severity a \<and> severity a \<le> 1 \<and> 0 \<le> confidence a \<and> confidence a \<le> 1"

text \<open>
  The severity, the confidence and the \<^verbatim>\<open>AnomalyResult\<close> that the body of the outlier loop
  computes for the index \<open>idx\<close>, as functions of their own.
\<close>

definition outlier_severity :: "AnomalyDetectionService \<Rightarrow> real \<Rightarrow> real" where
  "outlier_severity self z = min 1 (z / (Z_SCORE_THRESHOLD (ad_thresholds self) * 2))"

definition outlier_confidence :: "AnomalyDetectionService \<Rightarrow> real \<Rightarrow> real" where
  "outlier_confidence self z = min 1 (7 / 10 + (z - Z_SCORE_THRESHOLD (ad_thresholds self)) * (1 / 10))"

definition outlier_result ::
  "AnomalyDetectionService \<Rightarrow> string \<Rightarrow> real list \<Rightarrow> datetime list \<Rightarrow> real \<Rightarrow> real \<Rightarrow> real list \<Rightarrow> nat \<Rightarrow>
   AnomalyResult" where
  "outlier_result self metric_name vals ts baseline_mean baseline_std z_scores idx =
     \<lparr> anomaly_type = determine_anomaly_type metric_name (vals ! idx) baseline_mean,
       severity = outlier_severity self (z_scores ! idx),
       confidence = outlier_confidence self (z_scores ! idx),
       description = generate_explanation self metric_name (vals ! idx) baseline_mean baseline_std (z_scores ! idx),
       detected_at = ts ! idx,
       affected_metrics = [metric_name],
       an_context = Some [(''baseline_mean'', AFloat baseline_mean),
                          (''baseline_std'', AFloat baseline_std),
                          (''detected_value'', AFloat (vals ! idx)),
                          (''z_score'', AFloat (z_scores ! idx)),
                          (''z_score_threshold'', AFloat (Z_SCORE_THRESHOLD (ad_thresholds self))),
                          (''model_version'', AStr (version_value (ad_model_version self))),
                          (''explanation'', AText (generate_explanation self metric_name (vals ! idx)
                              baseline_mean baseline_std (z_scores ! idx)))] \<rparr>"

text \<open>
  The window, the rolling mean, and for the pair \<open>(i - 1, i)\<close> of window means the change,
  its threshold, the severity, the confidence, the test of the loop body and the
  \<^verbatim>\<open>AnomalyResult\<close> of \<^verbatim>\<open>_detect_trend_anomalies\<close>, as functions of their own.
\<close>

definition trend_window :: "real list \<Rightarrow> nat" where
  "trend_window vals = min 3 (length vals div 2)"

definition trend_rolling_mean :: "real list \<Rightarrow> real list" where
  "trend_rolling_mean vals =
     np_convolve_valid vals (replicate (trend_window vals) (1 / real (trend_window vals)))"

definition trend_change :: "real list \<Rightarrow> nat \<Rightarrow> real" where
  "trend_change rolling_mean i = \<bar>rolling_mean ! i - rolling_mean ! (i - 1)\<bar>"

definition trend_limit :: "AnomalyDetectionService \<Rightarrow> real \<Rightarrow> real" where
  "trend_limit self baseline_mean = \<bar>baseline_mean\<bar> * TREND_CHANGE_THRESHOLD (ad_thresholds self)"

definition trend_severity :: "real \<Rightarrow> real \<Rightarrow> real" where
  "trend_severity baseline_mean change =
     (if \<bar>baseline_mean\<bar> * (5 / 10) = 0 then 1 else min 1 (change / (\<bar>baseline_mean\<bar> * (5 / 10))))"

definition trend_confidence :: "real \<Rightarrow> real \<Rightarrow> real" where
  "trend_confidence change threshold =
     (if threshold = 0 then 1 else min 1 (75 / 100 + (change / threshold - 1) * (1 / 10)))"

definition trend_kept :: "AnomalyDetectionService \<Rightarrow> real \<Rightarrow> real list \<Rightarrow> nat \<Rightarrow> bool" where
  "trend_kept self baseline_mean rolling_mean i \<longleftrightarrow>
     trend_change rolling_mean i > trend_limit self baseline_mean
     \<and> \<not> trend_confidence (trend_change rolling_mean i) (trend_limit self baseline_mean)
           < MIN_CONFIDENCE_FOR_ALERT (ad_thresholds self)"

definition trend_explanation :: "AnomalyDetectionService \<Rightarrow> string \<Rightarrow> real \<Rightarrow> real list \<Rightarrow> nat \<Rightarrow> fstring" where
  "trend_explanation self metric_name baseline_mean rolling_mean i =
     [Lit ''Sudden change in '', Lit metric_name, Lit '': '', Fixed 2 (trend_change rolling_mean i),
      Lit '' '', Lit ''(threshold: '', Fixed 2 (trend_limit self baseline_mean), Lit '', baseline: '',
      Fixed 2 baseline_mean, Lit '')'']"

definition trend_result ::
  "AnomalyDetectionService \<Rightarrow> string \<Rightarrow> datetime list \<Rightarrow> real \<Rightarrow> nat \<Rightarrow> real list \<Rightarrow> nat \<Rightarrow> AnomalyResult" where
  "trend_result self metric_name ts baseline_mean window_size rolling_mean i =
     \<lparr> anomaly_type = PATTERN_DEVIATION,
       severity = trend_severity baseline_mean (trend_change rolling_mean i),
       confidence = trend_confidence (trend_change rolling_mean i) (trend_limit self baseline_mean),
       description = trend_explanation self metric_name baseline_mean rolling_mean i,
       detected_at = ts ! (i + window_size - 1),
       affected_metrics = [metric_name],
       an_context = Some [(''change_magnitude'', AFloat (trend_change rolling_mean i)),
                          (''baseline_mean'', AFloat baseline_mean),
                          (''threshold'', AFloat (trend_limit self baseline_mean)),
                          (''model_version'', AStr (version_value (ad_model_version self))),
                          (''explanation'', AText (trend_explanation self metric_name baseline_mean rolling_mean i))] \<rparr>"

text \<open>
  The test and the \<^verbatim>\<open>AnomalyResult\<close> of the loop of \<^verbatim>\<open>_detect_cross_metric_anomalies\<close>.
\<close>

definition cross_spike :: "real list \<Rightarrow> real list \<Rightarrow> nat \<Rightarrow> bool" where
  "cross_spike hr_values temp_values i \<longleftrightarrow>
     hr_values ! i > np_mean hr_values * (12 / 10) \<and> temp_values ! i > np_mean temp_values * (11 / 10)"

definition cross_explanation :: "real list \<Rightarrow> real list \<Rightarrow> nat \<Rightarrow> fstring" where
  "cross_explanation hr_values temp_values i =
     [Lit ''Simultaneous elevation detected: '',
      Lit ''heart rate '', Fixed 0 (hr_values ! i), Lit '' bpm (normal: '', Fixed 0 (np_mean hr_values),
      Lit plus_minus_sign, Fixed 0 (np_std hr_values), Lit ''), '',
      Lit ''temperature '', Fixed 2 (temp_values ! i), Lit (degree_sign @ ''C (normal: ''),
      Fixed 2 (np_mean temp_values), Lit plus_minus_sign, Fixed 2 (np_std temp_values), Lit '')'']"

definition cross_result ::
  "AnomalyDetectionService \<Rightarrow> real list \<Rightarrow> real list \<Rightarrow> datetime list \<Rightarrow> nat \<Rightarrow> AnomalyResult" where
  "cross_result self hr_values temp_values ts i =
     \<lparr> anomaly_type = PATTERN_DEVIATION,
       severity = 7 / 10,
       confidence = 8 / 10,
       description = cross_explanation hr_values temp_values i,
       detected_at = ts ! i,
       affected_metrics = [''heart_rate'', ''temperature''],
       an_context = Some [(''heart_rate_value'', AFloat (hr_values ! i)),
                          (''temperature_value'', AFloat (temp_values ! i)),
                          (''heart_rate_threshold'', AFloat (np_mean hr_values * (12 / 10))),
                          (''temperature_threshold'', AFloat (np_mean temp_values * (11 / 10))),
                          (''model_version'', AStr (version_value (ad_model_version self))),
                          (''explanation'', AText (cross_explanation hr_values temp_values i))] \<rparr>"

text \<open>
  What \<^verbatim>\<open>_detect_metric_anomalies\<close> appends for one metric when nothing raises: the
  outlier anomalies of the indices from \<open>0\<close> upwards that pass both tests, and the trend
  anomalies of the pairs from \<open>1\<close> upwards that pass theirs; and what
  \<^verbatim>\<open>_detect_cross_metric_anomalies\<close> returns.
\<close>

definition metric_outliers ::
  "AnomalyDetectionService \<Rightarrow> string \<Rightarrow> real list \<Rightarrow> datetime list \<Rightarrow>
   (string \<times> (string \<times> real) list) list option \<Rightarrow> AnomalyResult list" where
  "metric_outliers self metric_name vals ts bstats =
     (if length vals < 3 then []
      else
        (let baseline_mean = fst (baseline_of bstats metric_name vals);
             baseline_std = snd (baseline_of bstats metric_name vals);
             z_scores = z_scores_of vals baseline_mean baseline_std
         in map (outlier_result self metric_name vals ts baseline_mean baseline_std z_scores)
              (filter (\<lambda>idx. z_scores ! idx > Z_SCORE_THRESHOLD (ad_thresholds self)
                         \<and> \<not> outlier_confidence self (z_scores ! idx)
                               < MIN_CONFIDENCE_FOR_ALERT (ad_thresholds self))
                 [0 ..< length vals])))"

definition metric_trends ::
  "AnomalyDetectionService \<Rightarrow> string \<Rightarrow> real list \<Rightarrow> datetime list \<Rightarrow>
   (string \<times> (string \<times> real) list) list option \<Rightarrow> AnomalyResult list" where
  "metric_trends self metric_name vals ts bstats =
     (if length vals < 5 then []
      else
        (let baseline_mean = fst (baseline_of bstats metric_name vals);
             rolling_mean = trend_rolling_mean vals
         in map (trend_result self metric_name ts baseline_mean (trend_window vals) rolling_mean)
              (filter (trend_kept self baseline_mean rolling_mean) [1 ..< length rolling_mean])))"

definition cross_metric_results ::
  "AnomalyDetectionService \<Rightarrow> (string \<times> real list) list \<Rightarrow> datetime list \<Rightarrow> AnomalyResult list" where
  "cross_metric_results self tsd ts =
     (case (map_of tsd ''heart_rate'', map_of tsd ''temperature'') of
        (Some hr_values, Some temp_values) \<Rightarrow>
          if length hr_values = length temp_values \<and> length hr_values > 0
          then map (cross_result self hr_values temp_values ts)
                 (filter (cross_spike hr_values temp_values) [0 ..< length hr_values])
          else []
      | _ \<Rightarrow> [])"

text \<open>
  An anomaly detection request with two series of five points and their baselines:
  \<open>heart_rate\<close> has no outlier and two trend breaks, \<open>motion\<close> has one outlier and two
  trend breaks.
\<close>

definition ordering_request :: AnomalyDetectionRequest where
  "ordering_request = \<lparr>
     adq_device_id = ''dev-001'',
     adq_inmate_device_id = None,
     time_series_data = [(''heart_rate'', [70, 70, 70, 100, 100]), (''motion'', [1, 1, 10, 1, 1])],
     timestamps = [0, 1000000, 2000000, 3000000, 4000000],
     baseline_stats = Some [(''heart_rate'', [(''mean'', 70), (''std'', 20)]),
                            (''motion'', [(''mean'', 1), (''std'', 1)])],
     adq_metadata = None \<rparr>"

text \<open>
  The order of the loop of \<^verbatim>\<open>detect_anomalies\<close>: metric by metric, outliers then trends.
\<close>

definition code_anomaly_order :: "AnomalyDetectionService \<Rightarrow> AnomalyDetectionRequest \<Rightarrow> AnomalyResult list" where
  "code_anomaly_order self request =
     concat (map (\<lambda>(metric_name, vals).
        metric_outliers self metric_name vals (timestamps request) (baseline_stats request)
        @ metric_trends self metric_name vals (timestamps request) (baseline_stats request))
       (time_series_data request))
     @ cross_metric_results self (time_series_data request) (timestamps request)"

text \<open>
  The order in the words of the specification: the outliers of all metrics, then the trend
  anomalies of all metrics, then the cross-metric anomalies.
\<close>

definition spec_anomaly_order :: "AnomalyDetectionService \<Rightarrow> AnomalyDetectionRequest \<Rightarrow> AnomalyResult list" where
  "spec_anomaly_order self request =
     concat (map (\<lambda>(metric_name, vals).
        metric_outliers self metric_name vals (timestamps request) (baseline_stats request))
       (time_series_data request))
     @ concat (map (\<lambda>(metric_name, vals).
        metric_trends self metric_name vals (timestamps request) (baseline_stats request))
       (time_series_data request))
     @ cross_metric_results self (time_series_data request) (timestamps request)"






text \<open>A response with its timestamp fields erased.\<close>

definition erase_sq :: "SignalQualityResponse \<Rightarrow> SignalQualityResponse" where
  "erase_sq r = r\<lparr> sqr_processed_at := 0 \<rparr>"

definition erase_ad :: "AnomalyDetectionResponse \<Rightarrow> AnomalyDetectionResponse" where
  "erase_ad r = r\<lparr> adr_processed_at := 0 \<rparr>"

definition erase_rs :: "RiskScoringResponse \<Rightarrow> RiskScoringResponse" where
  "erase_rs r = r\<lparr> assessed_at := 0, valid_until := 0 \<rparr>"

text \<open>The service that \<^verbatim>\<open>SignalQualityService()\<close> builds from \<open>MODEL_REGISTRY\<close>.\<close>

definition signal_service :: SignalQualityService where
  "signal_service = \<lparr> sq_model_version = SIGNAL_QUALITY_V1, sq_config = SIGNAL_QUALITY_V1_config,
     sq_thresholds = AlertThresholds_default,
     sq_params = parameters (metadata SIGNAL_QUALITY_V1_config) \<rparr>"



section \<open>Properties\<close>

subsection \<open>The registry and the risk level\<close>

lemma RiskScoringService_init_default:
  "RiskScoringService_init MODEL_REGISTRY =
     (Inr \<lparr> rs_model_version = RISK_SCORING_V1, rs_config = RISK_SCORING_V1_config,
            rs_thresholds = AlertThresholds_default,
            rs_params = parameters (metadata RISK_SCORING_V1_config) \<rparr>, MODEL_REGISTRY)"
  by (simp add: RiskScoringService_init_def get_latest_model_version_def get_model_config_def
      MODEL_REGISTRY_def RISK_SCORING_V1_config_def)

text \<open>
  Claim C7. \<^verbatim>\<open>get_model_config\<close> returns the registered configuration of each of the three
  versions of \<open>MODEL_REGISTRY\<close>, and in any registry it raises exactly when the version is not
  a key; \<^verbatim>\<open>get_latest_model_version\<close> maps the three model types to their version and raises
  on every other string; \<^verbatim>\<open>get_thresholds\<close> is the \<open>thresholds\<close> field of what
  \<^verbatim>\<open>get_model_config\<close> returns; the lookups leave the registry as it was.
\<close>

theorem registry_lookups:
  "fst (get_model_config SIGNAL_QUALITY_V1 MODEL_REGISTRY) = Inr SIGNAL_QUALITY_V1_config
   \<and> fst (get_model_config ANOMALY_DETECTION_V1 MODEL_REGISTRY) = Inr ANOMALY_DETECTION_V1_config
   \<and> fst (get_model_config RISK_SCORING_V1 MODEL_REGISTRY) = Inr RISK_SCORING_V1_config
   \<and> ((\<exists>e. fst (get_model_config v reg) = Inl e) \<longleftrightarrow> reg v = None)
   \<and> (\<forall>c. fst (get_model_config v reg) = Inr c \<longleftrightarrow> reg v = Some c)
   \<and> get_latest_model_version ''signal_quality'' = Inr SIGNAL_QUALITY_V1
   \<and> get_latest_model_version ''anomaly_detection'' = Inr ANOMALY_DETECTION_V1
   \<and> get_latest_model_version ''risk_scoring'' = Inr RISK_SCORING_V1
   \<and> (s \<notin> {''signal_quality'', ''anomaly_detection'', ''risk_scoring''} \<longrightarrow>
        get_latest_model_version s = Inl (ValueError (''Unknown model type: '' @ s)))
   \<and> fst (get_thresholds v reg) = map_sum id thresholds (fst (get_model_config v reg))
   \<and> snd (get_model_config v reg) = reg
   \<and> snd (get_thresholds v reg) = reg"
  by (auto simp add: get_model_config_def get_latest_model_version_def get_thresholds_def
      MODEL_REGISTRY_def split: option.splits)

theorem registry_lookups_witness:
  "''battery'' \<notin> {''signal_quality'', ''anomaly_detection'', ''risk_scoring''}
   \<and> get_latest_model_version ''battery'' = Inl (ValueError ''Unknown model type: battery'')
   \<and> (\<exists>e. fst (get_model_config RISK_SCORING_V1 Map.empty) = Inl e)"
  using registry_lookups [of RISK_SCORING_V1 Map.empty "''battery''"] by simp

text \<open>
  Claim C1. With the thresholds of the registered risk scoring model (0.75, 0.5, 0.25),
  \<^verbatim>\<open>_determine_risk_level\<close> returns \<open>CRITICAL\<close> from \<open>RISK_SCORE_HIGH\<close> on, \<open>HIGH\<close> from
  \<open>RISK_SCORE_MODERATE\<close> up to \<open>RISK_SCORE_HIGH\<close>, \<open>MODERATE\<close> from \<open>RISK_SCORE_LOW\<close> up to
  \<open>RISK_SCORE_MODERATE\<close>, and \<open>LOW\<close> below \<open>RISK_SCORE_LOW\<close>.
\<close>

theorem determine_risk_level_tiers:
  "\<exists>self. fst (RiskScoringService_init MODEL_REGISTRY) = Inr self
     \<and> RISK_SCORE_HIGH (rs_thresholds self) = 75 / 100
     \<and> RISK_SCORE_MODERATE (rs_thresholds self) = 5 / 10
     \<and> RISK_SCORE_LOW (rs_thresholds self) = 25 / 100
     \<and> (\<forall>s. (determine_risk_level self s = CRITICAL \<longleftrightarrow> RISK_SCORE_HIGH (rs_thresholds self) \<le> s)
          \<and> (determine_risk_level self s = HIGH \<longleftrightarrow>
               RISK_SCORE_MODERATE (rs_thresholds self) \<le> s \<and> s < RISK_SCORE_HIGH (rs_thresholds self))
          \<and> (determine_risk_level self s = MODERATE \<longleftrightarrow>
               RISK_SCORE_LOW (rs_thresholds self) \<le> s \<and> s < RISK_SCORE_MODERATE (rs_thresholds self))
          \<and> (determine_risk_level self s = LOW \<longleftrightarrow> s < RISK_SCORE_LOW (rs_thresholds self)))"
  by (simp add: RiskScoringService_init_default determine_risk_level_def AlertThresholds_default_def)


subsection \<open>Risk scoring\<close>

lemma bindE_Inr_iff: "bindE m f = Inr y \<longleftrightarrow> (\<exists>x. m = Inr x \<and> f x = Inr y)"
  by (cases m) (simp_all add: bindE_def)

lemma bindE_Inr [simp]: "bindE (Inr x) f = f x"
  by (simp add: bindE_def)

lemma bindE_Inl [simp]: "bindE (Inl e) f = Inl e"
  by (simp add: bindE_def)

lemma RiskFactors_new_Inr:
  "RiskFactors_new n s w d e = Inr f \<Longrightarrow>
     0 \<le> factor_score f \<and> factor_score f \<le> 1 \<and> 0 \<le> weight f \<and> weight f \<le> 1"
  by (auto simp add: RiskFactors_new_def split: if_splits)

lemma RiskFactors_new_ok:
  "0 \<le> s \<Longrightarrow> s \<le> 1 \<Longrightarrow> 0 \<le> w \<Longrightarrow> w \<le> 1 \<Longrightarrow> \<exists>f. RiskFactors_new n s w d e = Inr f"
  by (simp add: RiskFactors_new_def)

lemma score_heart_rate_unit: "0 \<le> score_heart_rate self v t \<and> score_heart_rate self v t \<le> 1"
  by (simp add: score_heart_rate_def Let_def)

lemma score_temperature_unit: "0 \<le> score_temperature self v t \<and> score_temperature self v t \<le> 1"
  by (simp add: score_temperature_def Let_def)

lemma score_oxygen_saturation_unit:
  "0 \<le> score_oxygen_saturation self v \<and> score_oxygen_saturation self v \<le> 1"
  by (simp add: score_oxygen_saturation_def Let_def)

lemma default_params:
  assumes "fst (RiskScoringService_init MODEL_REGISTRY) = Inr self"
  shows "rs_params self = parameters (metadata RISK_SCORING_V1_config)"
    and "rs_thresholds self = AlertThresholds_default"
    and "rs_model_version self = RISK_SCORING_V1"
  using assms by (auto simp add: RiskScoringService_init_default RISK_SCORING_V1_config_def)

lemma RiskFactors_new_unit:
  "0 \<le> s \<Longrightarrow> s \<le> 1 \<Longrightarrow> 0 \<le> w \<Longrightarrow> w \<le> 1 \<Longrightarrow>
   RiskFactors_new n s w d e =
     Inr \<lparr> factor_name = n, factor_score = s, weight = w, rf_description = d, evidence = e \<rparr>"
  by (simp add: RiskFactors_new_def)

lemma heart_rate_factor_ok:
  assumes "rs_params self = parameters (metadata RISK_SCORING_V1_config)"
  shows "\<exists>fs. heart_rate_factor self vm ht = Inr fs"
proof (cases "map_of vm ''heart_rate''")
  case None
  then show ?thesis by (simp add: heart_rate_factor_def)
next
  case (Some v)
  have w: "param (rs_params self) ''heart_rate_weight'' = Inr (4 / 10)"
    by (simp add: assms RISK_SCORING_V1_config_def param_def)
  show ?thesis
    using Some w score_heart_rate_unit [of self v "trend_of ht ''heart_rate''"]
    by (simp add: heart_rate_factor_def Let_def RiskFactors_new_unit)
qed

lemma temperature_factor_ok:
  assumes "rs_params self = parameters (metadata RISK_SCORING_V1_config)"
  shows "\<exists>fs. temperature_factor self vm ht = Inr fs"
proof -
  have w: "param (rs_params self) ''temperature_weight'' = Inr (3 / 10)"
    by (simp add: assms RISK_SCORING_V1_config_def param_def)
  have u: "\<And>v t. RiskFactors_new n (score_temperature self v t) (3 / 10) d e =
      Inr \<lparr> factor_name = n, factor_score = score_temperature self v t, weight = 3 / 10,
             rf_description = d, evidence = e \<rparr>" for n d e
    using score_temperature_unit by (simp add: RiskFactors_new_unit)
  show ?thesis
    unfolding temperature_factor_def Let_def w bindE_Inr u by simp
qed

lemma oxygen_saturation_factor_ok:
  assumes "rs_params self = parameters (metadata RISK_SCORING_V1_config)"
  shows "\<exists>fs. oxygen_saturation_factor self vm = Inr fs"
proof -
  have w: "param (rs_params self) ''oxygen_saturation_weight'' = Inr (3 / 10)"
    by (simp add: assms RISK_SCORING_V1_config_def param_def)
  have u: "\<And>v. RiskFactors_new n (score_oxygen_saturation self v) (3 / 10) d e =
      Inr \<lparr> factor_name = n, factor_score = score_oxygen_saturation self v, weight = 3 / 10,
             rf_description = d, evidence = e \<rparr>" for n d e
    using score_oxygen_saturation_unit by (simp add: RiskFactors_new_unit)
  show ?thesis
    unfolding oxygen_saturation_factor_def Let_def w bindE_Inr u by simp
qed

lemma analyze_vital_metrics_ok:
  assumes "rs_params self = parameters (metadata RISK_SCORING_V1_config)"
  shows "\<exists>fs. analyze_vital_metrics self vm ht = Inr fs"
  using heart_rate_factor_ok [OF assms, of vm ht] temperature_factor_ok [OF assms, of vm ht]
    oxygen_saturation_factor_ok [OF assms, of vm]
  by (auto simp add: analyze_vital_metrics_def)

lemma anomaly_flag_factor_ok:
  assumes "rs_params self = parameters (metadata RISK_SCORING_V1_config)"
  shows "\<exists>f. anomaly_flag_factor self flag = Inr f"
  by (simp add: anomaly_flag_factor_def Let_def assms RISK_SCORING_V1_config_def param_get_def
      RiskFactors_new_def)

lemma analyze_anomaly_flags_ok:
  assumes "rs_params self = parameters (metadata RISK_SCORING_V1_config)"
  shows "\<exists>fs. analyze_anomaly_flags self flags = Inr fs"
proof (induction flags)
  case Nil
  show ?case by simp
next
  case (Cons flag flags)
  then show ?case using anomaly_flag_factor_ok [OF assms, of flag] by auto
qed

lemma analyze_signal_quality_ok:
  assumes "rs_params self = parameters (metadata RISK_SCORING_V1_config)"
    and "0 \<le> q" and "q \<le> 1"
  shows "\<exists>f. analyze_signal_quality self q = Inr f"
  using assms(2,3)
  by (simp add: analyze_signal_quality_def Let_def assms(1) RISK_SCORING_V1_config_def param_get_def
      RiskFactors_new_def)

lemma analyze_trends_ok: "\<exists>fs. analyze_trends self ht = Inr fs"
proof (induction ht)
  case Nil
  show ?case by simp
next
  case (Cons p ht)
  obtain m vs where p: "p = (m, vs)" by (cases p)
  from Cons obtain fs where fs: "analyze_trends self ht = Inr fs" by blast
  show ?case
    by (simp add: p fs Let_def RiskFactors_new_def)
qed

lemma calculate_overall_risk_score_unit:
  "0 \<le> calculate_overall_risk_score rfs \<and> calculate_overall_risk_score rfs \<le> 1"
  by (simp add: calculate_overall_risk_score_def Let_def)

lemma calculate_confidence_unit:
  "0 \<le> calculate_confidence rfs request \<and> calculate_confidence rfs request \<le> 1"
  by (simp add: calculate_confidence_def Let_def)

lemma RiskFactors_new_set:
  "bindE (RiskFactors_new n s w d e) (\<lambda>f. Inr [f]) = Inr fs \<Longrightarrow> \<forall>f\<in>set fs. unit_factor f"
  by (auto simp add: bindE_Inr_iff unit_factor_def dest: RiskFactors_new_Inr)

lemma heart_rate_factor_unit:
  "heart_rate_factor self vm ht = Inr fs \<Longrightarrow> \<forall>f\<in>set fs. unit_factor f"
  unfolding heart_rate_factor_def Let_def
  by (auto simp add: bindE_Inr_iff unit_factor_def split: option.splits dest: RiskFactors_new_Inr)

lemma temperature_factor_unit:
  "temperature_factor self vm ht = Inr fs \<Longrightarrow> \<forall>f\<in>set fs. unit_factor f"
  unfolding temperature_factor_def Let_def
  by (auto simp add: bindE_Inr_iff unit_factor_def split: if_splits dest: RiskFactors_new_Inr)

lemma oxygen_saturation_factor_unit:
  "oxygen_saturation_factor self vm = Inr fs \<Longrightarrow> \<forall>f\<in>set fs. unit_factor f"
  unfolding oxygen_saturation_factor_def Let_def
  by (auto simp add: bindE_Inr_iff unit_factor_def split: if_splits dest: RiskFactors_new_Inr)

lemma analyze_vital_metrics_unit:
  "analyze_vital_metrics self vm ht = Inr fs \<Longrightarrow> \<forall>f\<in>set fs. unit_factor f"
  unfolding analyze_vital_metrics_def
  by (auto simp add: bindE_Inr_iff dest!: heart_rate_factor_unit temperature_factor_unit
      oxygen_saturation_factor_unit)

lemma anomaly_flag_factor_unit: "anomaly_flag_factor self flag = Inr f \<Longrightarrow> unit_factor f"
  unfolding anomaly_flag_factor_def Let_def unit_factor_def by (rule RiskFactors_new_Inr)

lemma analyze_anomaly_flags_unit:
  "analyze_anomaly_flags self flags = Inr fs \<Longrightarrow> \<forall>f\<in>set fs. unit_factor f"
proof (induction flags arbitrary: fs)
  case Nil
  then show ?case by simp
next
  case (Cons flag flags)
  then show ?case
    by (auto simp add: bindE_Inr_iff dest!: anomaly_flag_factor_unit)
qed

lemma analyze_signal_quality_unit: "analyze_signal_quality self q = Inr f \<Longrightarrow> unit_factor f"
  unfolding analyze_signal_quality_def Let_def unit_factor_def by (rule RiskFactors_new_Inr)

lemma analyze_trends_unit:
  "analyze_trends self ht = Inr fs \<Longrightarrow> \<forall>f\<in>set fs. unit_factor f"
proof (induction ht arbitrary: fs)
  case Nil
  then show ?case by simp
next
  case (Cons p ht)
  obtain m vs where p: "p = (m, vs)" by (cases p)
  from Cons.prems Cons.IH show ?case
    unfolding p
    by (auto simp add: bindE_Inr_iff Let_def unit_factor_def split: if_splits dest: RiskFactors_new_Inr)
qed

lemma RiskScoringResponse_new_unit:
  "0 \<le> s \<Longrightarrow> s \<le> 1 \<Longrightarrow> 0 \<le> c \<Longrightarrow> c \<le> 1 \<Longrightarrow>
   RiskScoringResponse_new d s l fs pc ra c t u mv =
     Inr \<lparr> rsr_device_id = d, overall_risk_score = s, risk_level = l, risk_factors = fs,
            primary_concerns = pc, recommended_actions = ra, rsr_confidence = c,
            assessed_at = t, valid_until = u, rsr_model_version = mv \<rparr>"
  by (simp add: RiskScoringResponse_new_def)

lemma calculate_risk_ok:
  assumes p: "rs_params self = parameters (metadata RISK_SCORING_V1_config)"
    and q: "\<forall>q. signal_quality_score request = Some q \<longrightarrow> 0 \<le> q \<and> q \<le> 1"
  shows "\<exists>r. calculate_risk self request now1 now2 = Inr r
    \<and> assessed_at r = now2
    \<and> valid_until r = now1 + timedelta_hours (min (time_window_hours request) 1)
    \<and> (\<forall>f\<in>set (risk_factors r). unit_factor f)
    \<and> overall_risk_score r = calculate_overall_risk_score (risk_factors r)
    \<and> rsr_confidence r = calculate_confidence (risk_factors r) request"
proof -
  obtain v where v: "analyze_vital_metrics self (vital_metrics request) (historical_trends request) = Inr v"
    using analyze_vital_metrics_ok [OF p] by blast
  obtain a where a: "(case anomaly_flags request of None \<Rightarrow> Inr []
            | Some flags \<Rightarrow> if flags = [] then Inr [] else analyze_anomaly_flags self flags) = Inr a"
  proof (cases "anomaly_flags request")
    case None
    then show ?thesis using that by simp
  next
    case (Some fl)
    obtain fs where "analyze_anomaly_flags self fl = Inr fs"
      using analyze_anomaly_flags_ok [OF p] by blast
    then show ?thesis using that Some by (cases "fl = []") simp_all
  qed
  obtain s where s: "(case signal_quality_score request of None \<Rightarrow> Inr []
            | Some q \<Rightarrow> bindE (analyze_signal_quality self q) (\<lambda>f. Inr [f])) = Inr s"
  proof (cases "signal_quality_score request")
    case None
    then show ?thesis using that by simp
  next
    case (Some x)
    then obtain f where "analyze_signal_quality self x = Inr f"
      using analyze_signal_quality_ok [OF p, of x] q by blast
    then show ?thesis using that Some by simp
  qed
  obtain t where t: "(case historical_trends request of None \<Rightarrow> Inr []
            | Some ht \<Rightarrow> if ht = [] then Inr [] else analyze_trends self ht) = Inr t"
  proof (cases "historical_trends request")
    case None
    then show ?thesis using that by simp
  next
    case (Some d)
    obtain fs where "analyze_trends self d = Inr fs"
      using analyze_trends_ok by blast
    then show ?thesis using that Some by (cases "d = []") simp_all
  qed
  have uv: "\<forall>f\<in>set v. unit_factor f" using v by (rule analyze_vital_metrics_unit)
  have ua: "\<forall>f\<in>set a. unit_factor f"
    using a by (auto split: option.splits if_splits dest!: analyze_anomaly_flags_unit)
  have us: "\<forall>f\<in>set s. unit_factor f"
    using s by (auto simp add: bindE_Inr_iff split: option.splits dest!: analyze_signal_quality_unit)
  have ut: "\<forall>f\<in>set t. unit_factor f"
    using t by (auto split: option.splits if_splits dest!: analyze_trends_unit)
  show ?thesis
    unfolding calculate_risk_def v a s t bindE_Inr Let_def
    using uv ua us ut calculate_overall_risk_score_unit [of "v @ a @ s @ t"]
      calculate_confidence_unit [of "v @ a @ s @ t" request]
    by (auto simp add: RiskScoringResponse_new_unit)
qed

text \<open>
  Claim C6. For the service built from \<open>MODEL_REGISTRY\<close> and a request whose signal quality
  score, when given, is in \<open>[0, 1]\<close>, \<^verbatim>\<open>calculate_risk\<close> returns a response (no lookup and
  no validation fails), and every factor score, the overall risk score and the confidence
  of the response are in \<open>[0, 1]\<close>.
\<close>

theorem risk_scores_in_unit_interval:
  assumes "fst (RiskScoringService_init MODEL_REGISTRY) = Inr self"
    and "\<forall>q. signal_quality_score request = Some q \<longrightarrow> 0 \<le> q \<and> q \<le> 1"
  shows "\<exists>r. calculate_risk self request now1 now2 = Inr r
    \<and> (\<forall>f\<in>set (risk_factors r). 0 \<le> factor_score f \<and> factor_score f \<le> 1)
    \<and> 0 \<le> overall_risk_score r \<and> overall_risk_score r \<le> 1
    \<and> 0 \<le> rsr_confidence r \<and> rsr_confidence r \<le> 1"
proof -
  obtain r where r: "calculate_risk self request now1 now2 = Inr r"
    and u: "\<forall>f\<in>set (risk_factors r). unit_factor f"
    and o: "overall_risk_score r = calculate_overall_risk_score (risk_factors r)"
    and c: "rsr_confidence r = calculate_confidence (risk_factors r) request"
    using calculate_risk_ok [OF default_params(1) [OF assms(1)] assms(2)] by blast
  show ?thesis
    using r u calculate_overall_risk_score_unit calculate_confidence_unit
    by (auto simp add: o c unit_factor_def)
qed

theorem risk_scores_in_unit_interval_witness:
  "fst (RiskScoringService_init MODEL_REGISTRY) =
     Inr \<lparr> rs_model_version = RISK_SCORING_V1, rs_config = RISK_SCORING_V1_config,
           rs_thresholds = AlertThresholds_default,
           rs_params = parameters (metadata RISK_SCORING_V1_config) \<rparr>
   \<and> signal_quality_score scenario_request = Some (85 / 100)
   \<and> (\<exists>r. calculate_risk \<lparr> rs_model_version = RISK_SCORING_V1, rs_config = RISK_SCORING_V1_config,
           rs_thresholds = AlertThresholds_default,
           rs_params = parameters (metadata RISK_SCORING_V1_config) \<rparr> scenario_request 0 0 = Inr r
    \<and> (\<forall>f\<in>set (risk_factors r). 0 \<le> factor_score f \<and> factor_score f \<le> 1)
    \<and> 0 \<le> overall_risk_score r \<and> overall_risk_score r \<le> 1
    \<and> 0 \<le> rsr_confidence r \<and> rsr_confidence r \<le> 1)"
proof -
  have i: "fst (RiskScoringService_init MODEL_REGISTRY) =
     Inr \<lparr> rs_model_version = RISK_SCORING_V1, rs_config = RISK_SCORING_V1_config,
           rs_thresholds = AlertThresholds_default,
           rs_params = parameters (metadata RISK_SCORING_V1_config) \<rparr>"
    by (simp add: RiskScoringService_init_default)
  have q: "\<forall>q. signal_quality_score scenario_request = Some q \<longrightarrow> 0 \<le> q \<and> q \<le> 1"
    by (simp add: scenario_request_def)
  have v: "signal_quality_score scenario_request = Some (85 / 100)"
    by (simp add: scenario_request_def)
  show ?thesis
    using i v risk_scores_in_unit_interval [OF i q, of 0 0] by blast
qed

text \<open>
  Claim C2. \<^verbatim>\<open>valid_until\<close> is the first clock reading plus \<open>min(time_window_hours, 1)\<close>
  hours and \<^verbatim>\<open>assessed_at\<close> is a second clock reading. On the request of the scenario,
  with the clock one microsecond further at the second reading, \<^verbatim>\<open>valid_until\<close> is not
  \<^verbatim>\<open>assessed_at\<close> plus one hour.
\<close>

theorem valid_until_drifts_from_assessed_at:
  "\<exists>self r. fst (RiskScoringService_init MODEL_REGISTRY) = Inr self
     \<and> calculate_risk self scenario_request 1705314600000000 1705314600000001 = Inr r
     \<and> assessed_at r = 1705314600000001
     \<and> valid_until r = 1705318200000000
     \<and> valid_until r \<noteq> assessed_at r + timedelta_hours (min (time_window_hours scenario_request) 1)"
proof -
  let ?self = "\<lparr> rs_model_version = RISK_SCORING_V1, rs_config = RISK_SCORING_V1_config,
           rs_thresholds = AlertThresholds_default,
           rs_params = parameters (metadata RISK_SCORING_V1_config) \<rparr>"
  have q: "\<forall>q. signal_quality_score scenario_request = Some q \<longrightarrow> 0 \<le> q \<and> q \<le> 1"
    by (simp add: scenario_request_def)
  obtain r where r: "calculate_risk ?self scenario_request 1705314600000000 1705314600000001 = Inr r"
    and a: "assessed_at r = 1705314600000001"
    and v: "valid_until r = 1705314600000000 + timedelta_hours (min (time_window_hours scenario_request) 1)"
    using calculate_risk_ok [of ?self scenario_request 1705314600000000 1705314600000001] q by auto
  have h: "timedelta_hours (min (time_window_hours scenario_request) 1) = 3600000000"
    by (simp add: scenario_request_def timedelta_hours_def)
  show ?thesis
    using r a v h by (intro exI [of _ ?self] exI [of _ r]) (simp add: RiskScoringService_init_default)
qed


subsection \<open>Anomaly detection: what the loops return\<close>

lemma AnomalyDetectionService_init_default:
  "AnomalyDetectionService_init MODEL_REGISTRY = (Inr anomaly_service, MODEL_REGISTRY)"
  by (simp add: AnomalyDetectionService_init_def get_latest_model_version_def get_model_config_def
      MODEL_REGISTRY_def anomaly_service_def ANOMALY_DETECTION_V1_config_def)

lemma anomaly_service_thresholds:
  "Z_SCORE_THRESHOLD (ad_thresholds anomaly_service) = 3"
  "MIN_CONFIDENCE_FOR_ALERT (ad_thresholds anomaly_service) = 6 / 10"
  "TREND_CHANGE_THRESHOLD (ad_thresholds anomaly_service) = 2 / 10"
  by (simp_all add: anomaly_service_def AlertThresholds_default_def)

lemma AnomalyResult_new_Inr: "AnomalyResult_new t s c d dt ms cx = Inr a \<Longrightarrow> unit_anomaly a"
  by (auto simp add: AnomalyResult_new_def unit_anomaly_def split: if_splits)

lemma AnomalyResult_new_unit:
  "0 \<le> s \<Longrightarrow> s \<le> 1 \<Longrightarrow> 0 \<le> c \<Longrightarrow> c \<le> 1 \<Longrightarrow>
   AnomalyResult_new t s c d dt ms cx =
     Inr \<lparr> anomaly_type = t, severity = s, confidence = c, description = d, detected_at = dt,
            affected_metrics = ms, an_context = cx \<rparr>"
  by (simp add: AnomalyResult_new_def)

lemma item_in_range [simp]: "i < length xs \<Longrightarrow> item xs i = Inr (xs ! i)"
  by (simp add: item_def)

lemma outlier_anomaly_eq:
  assumes z: "0 < Z_SCORE_THRESHOLD (ad_thresholds self)"
    and m: "0 \<le> MIN_CONFIDENCE_FOR_ALERT (ad_thresholds self)"
    and i: "idx < length ts"
    and n: "0 \<le> z_scores ! idx"
  shows "outlier_anomaly self metric_name vals ts baseline_mean baseline_std z_scores idx =
     Inr (if outlier_confidence self (z_scores ! idx) < MIN_CONFIDENCE_FOR_ALERT (ad_thresholds self)
          then None
          else Some (outlier_result self metric_name vals ts baseline_mean baseline_std z_scores idx))"
proof (cases "outlier_confidence self (z_scores ! idx) < MIN_CONFIDENCE_FOR_ALERT (ad_thresholds self)")
  case True
  then show ?thesis
    using z by (simp add: outlier_anomaly_def outlier_confidence_def Let_def)
next
  case False
  have s: "0 \<le> outlier_severity self (z_scores ! idx)" "outlier_severity self (z_scores ! idx) \<le> 1"
    using z n by (simp_all add: outlier_severity_def)
  have c: "0 \<le> outlier_confidence self (z_scores ! idx)" "outlier_confidence self (z_scores ! idx) \<le> 1"
    using False m by (simp_all add: outlier_confidence_def)
  have "outlier_anomaly self metric_name vals ts baseline_mean baseline_std z_scores idx =
     bindE (AnomalyResult_new (determine_anomaly_type metric_name (vals ! idx) baseline_mean)
        (outlier_severity self (z_scores ! idx)) (outlier_confidence self (z_scores ! idx))
        (generate_explanation self metric_name (vals ! idx) baseline_mean baseline_std (z_scores ! idx))
        (ts ! idx) [metric_name]
        (an_context (outlier_result self metric_name vals ts baseline_mean baseline_std z_scores idx)))
       (\<lambda>a. Inr (Some a))"
    using z False i
    by (simp add: outlier_anomaly_def Let_def outlier_confidence_def outlier_severity_def outlier_result_def)
  also have "\<dots> = Inr (Some (outlier_result self metric_name vals ts baseline_mean baseline_std z_scores idx))"
    using s c by (simp add: AnomalyResult_new_unit outlier_result_def)
  finally show ?thesis using False by simp
qed

lemma outlier_loop_eq:
  assumes z: "0 < Z_SCORE_THRESHOLD (ad_thresholds self)"
    and m: "0 \<le> MIN_CONFIDENCE_FOR_ALERT (ad_thresholds self)"
    and i: "\<forall>idx\<in>set idxs. idx < length ts \<and> 0 \<le> z_scores ! idx"
  shows "outlier_loop self metric_name vals ts baseline_mean baseline_std z_scores idxs =
     Inr (map (outlier_result self metric_name vals ts baseline_mean baseline_std z_scores)
           (filter (\<lambda>idx. \<not> outlier_confidence self (z_scores ! idx)
                       < MIN_CONFIDENCE_FOR_ALERT (ad_thresholds self)) idxs))"
  using i
proof (induction idxs)
  case Nil
  show ?case by simp
next
  case (Cons idx idxs)
  then show ?case
    by (simp add: outlier_anomaly_eq [OF z m])
qed

lemma trend_severity_unit: "0 \<le> c \<Longrightarrow> 0 \<le> trend_severity b c \<and> trend_severity b c \<le> 1"
  by (simp add: trend_severity_def)

lemma trend_confidence_le_1: "trend_confidence c t \<le> 1"
  by (simp add: trend_confidence_def)

lemma trend_anomaly_eq:
  assumes m: "0 \<le> MIN_CONFIDENCE_FOR_ALERT (ad_thresholds self)"
    and i: "i + window_size - 1 < length ts"
  shows "trend_anomaly self metric_name ts baseline_mean window_size rolling_mean i =
     Inr (if trend_kept self baseline_mean rolling_mean i
          then Some (trend_result self metric_name ts baseline_mean window_size rolling_mean i)
          else None)"
proof (cases "trend_kept self baseline_mean rolling_mean i")
  case False
  then show ?thesis
    by (auto simp add: trend_anomaly_def trend_kept_def trend_change_def trend_limit_def
        trend_confidence_def Let_def)
next
  case True
  let ?c = "trend_change rolling_mean i" and ?t = "trend_limit self baseline_mean"
  have k: "?c > ?t" "\<not> trend_confidence ?c ?t < MIN_CONFIDENCE_FOR_ALERT (ad_thresholds self)"
    using True by (simp_all add: trend_kept_def)
  have c0: "0 \<le> ?c" by (simp add: trend_change_def)
  have u: "0 \<le> trend_severity baseline_mean ?c" "trend_severity baseline_mean ?c \<le> 1"
    "0 \<le> trend_confidence ?c ?t" "trend_confidence ?c ?t \<le> 1"
    using trend_severity_unit [OF c0] trend_confidence_le_1 k(2) m by auto
  have "trend_anomaly self metric_name ts baseline_mean window_size rolling_mean i =
     bindE (AnomalyResult_new PATTERN_DEVIATION (trend_severity baseline_mean ?c) (trend_confidence ?c ?t)
        (trend_explanation self metric_name baseline_mean rolling_mean i) (ts ! (i + window_size - 1))
        [metric_name]
        (an_context (trend_result self metric_name ts baseline_mean window_size rolling_mean i)))
       (\<lambda>a. Inr (Some a))"
    using k i
    by (simp add: trend_anomaly_def Let_def trend_change_def trend_limit_def trend_severity_def
        trend_confidence_def trend_explanation_def trend_result_def)
  also have "\<dots> = Inr (Some (trend_result self metric_name ts baseline_mean window_size rolling_mean i))"
    using u by (simp add: AnomalyResult_new_unit trend_result_def)
  finally show ?thesis using True by simp
qed

lemma trend_loop_eq:
  assumes m: "0 \<le> MIN_CONFIDENCE_FOR_ALERT (ad_thresholds self)"
    and i: "\<forall>i\<in>set is. i + window_size - 1 < length ts"
  shows "trend_loop self metric_name ts baseline_mean window_size rolling_mean is =
     Inr (map (trend_result self metric_name ts baseline_mean window_size rolling_mean)
           (filter (trend_kept self baseline_mean rolling_mean) is))"
  using i
proof (induction "is")
  case Nil
  show ?case by simp
next
  case (Cons i "is")
  then show ?case
    by (simp add: trend_anomaly_eq [OF m])
qed

lemma cross_anomaly_eq:
  assumes "i < length ts"
  shows "cross_anomaly self hr_values temp_values ts i =
     Inr (if cross_spike hr_values temp_values i then Some (cross_result self hr_values temp_values ts i)
          else None)"
  using assms
  by (simp add: cross_anomaly_def cross_spike_def cross_result_def cross_explanation_def Let_def
      AnomalyResult_new_def)

lemma cross_loop_eq:
  assumes "\<forall>i\<in>set is. i < length ts"
  shows "cross_loop self hr_values temp_values ts is =
     Inr (map (cross_result self hr_values temp_values ts) (filter (cross_spike hr_values temp_values) is))"
  using assms
proof (induction "is")
  case Nil
  show ?case by simp
next
  case (Cons i "is")
  then show ?case by (simp add: cross_anomaly_eq)
qed

lemma length_z_scores_of [simp]: "length (z_scores_of vals m s) = length vals"
  by (simp add: z_scores_of_def)

lemma z_scores_of_nonneg: "i < length vals \<Longrightarrow> 0 \<le> z_scores_of vals m s ! i"
  by (simp add: z_scores_of_def)

lemma length_np_convolve_valid:
  "length (np_convolve_valid a v) = length a - length v + 1"
  by (simp add: np_convolve_valid_def)

lemma length_trend_rolling_mean:
  "length (trend_rolling_mean vals) = length vals - trend_window vals + 1"
  by (simp add: trend_rolling_mean_def length_np_convolve_valid)

lemma detect_trend_anomalies_eq:
  assumes m: "0 \<le> MIN_CONFIDENCE_FOR_ALERT (ad_thresholds self)"
    and l: "length vals \<le> length ts"
    and n: "5 \<le> length vals"
  shows "detect_trend_anomalies self metric_name vals ts baseline_mean =
     Inr (map (trend_result self metric_name ts baseline_mean (trend_window vals) (trend_rolling_mean vals))
           (filter (trend_kept self baseline_mean (trend_rolling_mean vals))
              [1 ..< length (trend_rolling_mean vals)]))"
proof -
  have w: "trend_window vals \<le> length vals" "1 \<le> trend_window vals"
    using n by (simp_all add: trend_window_def)
  have "\<forall>i\<in>set [1 ..< length (trend_rolling_mean vals)]. i + trend_window vals - 1 < length ts"
    using w l by (auto simp add: length_trend_rolling_mean)
  note e = trend_loop_eq [OF m this]
  have "detect_trend_anomalies self metric_name vals ts baseline_mean =
      trend_loop self metric_name ts baseline_mean (trend_window vals) (trend_rolling_mean vals)
        [1 ..< length (trend_rolling_mean vals)]"
    using n by (simp add: detect_trend_anomalies_def Let_def trend_window_def trend_rolling_mean_def)
  then show ?thesis by (simp only: e)
qed

lemma detect_metric_anomalies_eq:
  assumes z: "0 < Z_SCORE_THRESHOLD (ad_thresholds self)"
    and m: "0 \<le> MIN_CONFIDENCE_FOR_ALERT (ad_thresholds self)"
    and l: "length vals \<le> length ts"
  shows "detect_metric_anomalies self metric_name vals ts bstats =
     Inr (metric_outliers self metric_name vals ts bstats @ metric_trends self metric_name vals ts bstats)"
proof (cases "length vals < 3")
  case True
  then show ?thesis
    by (simp add: detect_metric_anomalies_def metric_outliers_def metric_trends_def)
next
  case False
  obtain bm bs where b: "baseline_of bstats metric_name vals = (bm, bs)"
    by (cases "baseline_of bstats metric_name vals")
  let ?zs = "z_scores_of vals bm bs"
  let ?Z = "Z_SCORE_THRESHOLD (ad_thresholds self)"
  have "\<forall>idx\<in>set (outlier_indices_of ?zs ?Z). idx < length ts \<and> 0 \<le> ?zs ! idx"
    using l by (auto simp add: outlier_indices_of_def z_scores_of_nonneg)
  from outlier_loop_eq [OF z m this]
  have o: "outlier_loop self metric_name vals ts bm bs ?zs (outlier_indices_of ?zs ?Z) =
      Inr (metric_outliers self metric_name vals ts bstats)"
    using False by (simp add: metric_outliers_def b outlier_indices_of_def Let_def)
  have t: "(if length vals \<ge> 5 then detect_trend_anomalies self metric_name vals ts bm else Inr []) =
      Inr (metric_trends self metric_name vals ts bstats)"
    using detect_trend_anomalies_eq [OF m l, of metric_name bm]
    by (simp add: metric_trends_def b Let_def)
  show ?thesis
    using False unfolding detect_metric_anomalies_def b Let_def prod.case o t
    by simp
qed

lemma metrics_loop_eq:
  assumes z: "0 < Z_SCORE_THRESHOLD (ad_thresholds self)"
    and m: "0 \<le> MIN_CONFIDENCE_FOR_ALERT (ad_thresholds self)"
    and l: "\<forall>(metric_name, vals)\<in>set tsd. length vals \<le> length ts"
  shows "metrics_loop self ts bstats tsd =
     Inr (concat (map (\<lambda>(metric_name, vals).
            metric_outliers self metric_name vals ts bstats @ metric_trends self metric_name vals ts bstats)
          tsd))"
  using l
proof (induction tsd)
  case Nil
  show ?case by simp
next
  case (Cons p tsd)
  obtain n vs where p: "p = (n, vs)" by (cases p)
  from Cons show ?case
    by (simp add: p detect_metric_anomalies_eq [OF z m])
qed

lemma detect_cross_metric_anomalies_eq:
  assumes l: "\<forall>(metric_name, vals)\<in>set tsd. length vals \<le> length ts"
  shows "detect_cross_metric_anomalies self tsd ts = Inr (cross_metric_results self tsd ts)"
proof (cases "map_of tsd ''heart_rate''")
  case None
  then show ?thesis by (simp add: detect_cross_metric_anomalies_def cross_metric_results_def)
next
  case (Some hr)
  then have "(''heart_rate'', hr) \<in> set tsd" by (rule map_of_SomeD)
  with l have h: "length hr \<le> length ts" by auto
  then have "\<forall>i\<in>set [0 ..< length hr]. i < length ts" by auto
  note e = cross_loop_eq [OF this]
  show ?thesis
  proof (cases "map_of tsd ''temperature''")
    case None
    then show ?thesis
      using Some by (simp add: detect_cross_metric_anomalies_def cross_metric_results_def)
  next
    case (Some temp)
    note hs = \<open>map_of tsd ''heart_rate'' = Some hr\<close>
    show ?thesis
    proof (cases "length hr = length temp \<and> length hr > 0")
      case True
      then have "\<forall>i\<in>set [0 ..< length temp]. i < length ts" using h by auto
      from cross_loop_eq [OF this] show ?thesis
        using hs Some True
        by (simp add: detect_cross_metric_anomalies_def cross_metric_results_def)
    next
      case False
      then show ?thesis
        using hs Some
        by (auto simp add: detect_cross_metric_anomalies_def cross_metric_results_def)
    qed
  qed
qed


subsection \<open>Anomaly detection: scores of the results\<close>

lemma outlier_anomaly_unit:
  "outlier_anomaly self metric_name vals ts bm bs zs idx = Inr (Some a) \<Longrightarrow> unit_anomaly a"
  unfolding outlier_anomaly_def Let_def
  by (auto simp add: bindE_Inr_iff split: if_splits dest: AnomalyResult_new_Inr)

lemma outlier_loop_unit:
  "outlier_loop self metric_name vals ts bm bs zs idxs = Inr anoms \<Longrightarrow> \<forall>a\<in>set anoms. unit_anomaly a"
proof (induction idxs arbitrary: anoms)
  case Nil
  then show ?case by simp
next
  case (Cons idx idxs)
  from Cons.prems obtain r rest where r: "outlier_anomaly self metric_name vals ts bm bs zs idx = Inr r"
    and rest: "outlier_loop self metric_name vals ts bm bs zs idxs = Inr rest"
    and anoms: "anoms = (case r of None \<Rightarrow> rest | Some a \<Rightarrow> a # rest)"
    by (auto simp add: bindE_Inr_iff)
  show ?case
  proof (cases r)
    case None
    then show ?thesis using Cons.IH [OF rest] anoms by simp
  next
    case (Some a)
    then have "unit_anomaly a" using r outlier_anomaly_unit by blast
    then show ?thesis using Cons.IH [OF rest] anoms Some by simp
  qed
qed

lemma trend_anomaly_unit:
  "trend_anomaly self metric_name ts bm w rm i = Inr (Some a) \<Longrightarrow> unit_anomaly a"
  unfolding trend_anomaly_def Let_def
  by (auto simp add: bindE_Inr_iff split: if_splits dest: AnomalyResult_new_Inr)

lemma trend_loop_unit:
  "trend_loop self metric_name ts bm w rm ixs = Inr anoms \<Longrightarrow> \<forall>a\<in>set anoms. unit_anomaly a"
proof (induction ixs arbitrary: anoms)
  case Nil
  then show ?case by simp
next
  case (Cons i ixs)
  from Cons.prems obtain r rest where r: "trend_anomaly self metric_name ts bm w rm i = Inr r"
    and rest: "trend_loop self metric_name ts bm w rm ixs = Inr rest"
    and anoms: "anoms = (case r of None \<Rightarrow> rest | Some a \<Rightarrow> a # rest)"
    by (auto simp add: bindE_Inr_iff)
  show ?case
  proof (cases r)
    case None
    then show ?thesis using Cons.IH [OF rest] anoms by simp
  next
    case (Some a)
    then have "unit_anomaly a" using r trend_anomaly_unit by blast
    then show ?thesis using Cons.IH [OF rest] anoms Some by simp
  qed
qed

lemma cross_anomaly_unit:
  "cross_anomaly self hr temp ts i = Inr (Some a) \<Longrightarrow> unit_anomaly a"
  unfolding cross_anomaly_def Let_def
  by (auto simp add: bindE_Inr_iff split: if_splits dest: AnomalyResult_new_Inr)

lemma cross_loop_unit:
  "cross_loop self hr temp ts ixs = Inr anoms \<Longrightarrow> \<forall>a\<in>set anoms. unit_anomaly a"
proof (induction ixs arbitrary: anoms)
  case Nil
  then show ?case by simp
next
  case (Cons i ixs)
  from Cons.prems obtain r rest where r: "cross_anomaly self hr temp ts i = Inr r"
    and rest: "cross_loop self hr temp ts ixs = Inr rest"
    and anoms: "anoms = (case r of None \<Rightarrow> rest | Some a \<Rightarrow> a # rest)"
    by (auto simp add: bindE_Inr_iff)
  show ?case
  proof (cases r)
    case None
    then show ?thesis using Cons.IH [OF rest] anoms by simp
  next
    case (Some a)
    then have "unit_anomaly a" using r cross_anomaly_unit by blast
    then show ?thesis using Cons.IH [OF rest] anoms Some by simp
  qed
qed

lemma detect_metric_anomalies_unit:
  "detect_metric_anomalies self metric_name vals ts bstats = Inr anoms \<Longrightarrow> \<forall>a\<in>set anoms. unit_anomaly a"
  unfolding detect_metric_anomalies_def detect_trend_anomalies_def Let_def
  by (auto simp add: bindE_Inr_iff split: if_splits prod.splits dest!: outlier_loop_unit trend_loop_unit)

lemma metrics_loop_unit:
  "metrics_loop self ts bstats tsd = Inr anoms \<Longrightarrow> \<forall>a\<in>set anoms. unit_anomaly a"
proof (induction tsd arbitrary: anoms)
  case Nil
  then show ?case by simp
next
  case (Cons p tsd)
  obtain n vs where p: "p = (n, vs)" by (cases p)
  from Cons.prems Cons.IH show ?case
    unfolding p by (auto simp add: bindE_Inr_iff dest!: detect_metric_anomalies_unit)
qed

lemma detect_cross_metric_anomalies_unit:
  "detect_cross_metric_anomalies self tsd ts = Inr anoms \<Longrightarrow> \<forall>a\<in>set anoms. unit_anomaly a"
  unfolding detect_cross_metric_anomalies_def
  by (auto split: option.splits if_splits dest!: cross_loop_unit)

lemma detect_anomalies_Inr:
  assumes "detect_anomalies self request now = Inr r"
  shows "\<exists>pm cm. metrics_loop self (timestamps request) (baseline_stats request) (time_series_data request) = Inr pm
     \<and> detect_cross_metric_anomalies self (time_series_data request) (timestamps request) = Inr cm
     \<and> anomalies r = pm @ cm
     \<and> adr_overall_risk_score r = calculate_overall_risk (pm @ cm)
     \<and> anomaly_count r = int (length (pm @ cm))
     \<and> anomalies_detected r = (pm @ cm \<noteq> [])
     \<and> adr_processed_at r = now"
  using assms unfolding detect_anomalies_def Let_def
  by (auto simp add: bindE_Inr_iff AnomalyDetectionResponse_new_def split: if_splits)

lemma detect_anomalies_unit:
  assumes "detect_anomalies self request now = Inr r"
  shows "\<forall>a\<in>set (anomalies r). unit_anomaly a"
  using detect_anomalies_Inr [OF assms]
  by (auto dest!: metrics_loop_unit detect_cross_metric_anomalies_unit)

lemma weighted_severity_le:
  assumes "\<forall>a\<in>set anoms. 0 \<le> confidence a \<and> severity a \<le> 1"
  shows "sum_list (map (\<lambda>a. severity a * confidence a) anoms) \<le> sum_list (map confidence anoms)"
  using assms
proof (induction anoms)
  case Nil
  show ?case by simp
next
  case (Cons a anoms)
  have "severity a * confidence a \<le> 1 * confidence a"
    using Cons.prems by (intro mult_right_mono) simp_all
  with Cons show ?case by simp
qed

lemma calculate_overall_risk_mean:
  assumes "\<forall>a\<in>set anoms. 0 \<le> confidence a \<and> severity a \<le> 1"
  shows "calculate_overall_risk anoms =
     (if anoms = [] then 0
      else if sum_list (map confidence anoms) = 0 then 0
      else sum_list (map (\<lambda>a. severity a * confidence a) anoms) / sum_list (map confidence anoms))"
proof -
  have n: "0 \<le> sum_list (map confidence anoms)"
    using assms by (intro sum_list_nonneg) auto
  have "sum_list (map (\<lambda>a. severity a * confidence a) anoms) / sum_list (map confidence anoms) \<le> 1"
    if "0 < sum_list (map confidence anoms)"
    using that weighted_severity_le [OF assms] by simp
  then show ?thesis
    using n by (auto simp add: calculate_overall_risk_def Let_def min_def)
qed

text \<open>
  Claim C8. For anomalies as the schema admits them (severity at most 1, confidence not
  negative), \<^verbatim>\<open>_calculate_overall_risk\<close> is the mean of the severities weighted by the
  confidences, \<open>0\<close> for the empty list and \<open>0\<close> when the confidences sum to \<open>0\<close>; the
  \<^verbatim>\<open>overall_risk_score\<close> of every response of \<^verbatim>\<open>detect_anomalies\<close> is that mean of the
  anomalies of the response.
\<close>

theorem overall_risk_is_confidence_weighted_mean:
  "((\<forall>a\<in>set anoms. 0 \<le> confidence a \<and> severity a \<le> 1) \<longrightarrow>
      calculate_overall_risk anoms =
        (if anoms = [] then 0
         else if sum_list (map confidence anoms) = 0 then 0
         else sum_list (map (\<lambda>a. severity a * confidence a) anoms) / sum_list (map confidence anoms)))
   \<and> (detect_anomalies self request now = Inr r \<longrightarrow>
        adr_overall_risk_score r =
          (if anomalies r = [] then 0
           else if sum_list (map confidence (anomalies r)) = 0 then 0
           else sum_list (map (\<lambda>a. severity a * confidence a) (anomalies r))
                  / sum_list (map confidence (anomalies r))))
   \<and> calculate_overall_risk [] = 0"
proof (intro conjI impI)
  assume "\<forall>a\<in>set anoms. 0 \<le> confidence a \<and> severity a \<le> 1"
  then show "calculate_overall_risk anoms =
        (if anoms = [] then 0
         else if sum_list (map confidence anoms) = 0 then 0
         else sum_list (map (\<lambda>a. severity a * confidence a) anoms) / sum_list (map confidence anoms))"
    by (rule calculate_overall_risk_mean)
next
  assume r: "detect_anomalies self request now = Inr r"
  have u: "\<forall>a\<in>set (anomalies r). 0 \<le> confidence a \<and> severity a \<le> 1"
    using detect_anomalies_unit [OF r] by (simp add: unit_anomaly_def)
  have "adr_overall_risk_score r = calculate_overall_risk (anomalies r)"
    using detect_anomalies_Inr [OF r] by auto
  then show "adr_overall_risk_score r =
          (if anomalies r = [] then 0
           else if sum_list (map confidence (anomalies r)) = 0 then 0
           else sum_list (map (\<lambda>a. severity a * confidence a) (anomalies r))
                  / sum_list (map confidence (anomalies r)))"
    using calculate_overall_risk_mean [OF u] by simp
next
  show "calculate_overall_risk [] = 0" by (simp add: calculate_overall_risk_def)
qed

lemma outlier_confidence_ge:
  "Z_SCORE_THRESHOLD (ad_thresholds self) < z \<Longrightarrow> 7 / 10 \<le> outlier_confidence self z"
  by (simp add: outlier_confidence_def min_def)

lemma trend_confidence_gt:
  assumes "t < c" and "0 \<le> t"
  shows "75 / 100 < trend_confidence c t"
proof (cases "t = 0")
  case True
  then show ?thesis by (simp add: trend_confidence_def)
next
  case False
  define x where "x = 75 / 100 + (c / t - 1) * (1 / 10)"
  from False assms have "0 < t" by simp
  with assms have "1 < c / t" by simp
  then have "75 / 100 < x" by (simp add: x_def)
  moreover have "trend_confidence c t = min 1 x"
    using False by (simp add: trend_confidence_def x_def)
  ultimately show ?thesis by simp
qed

lemma outlier_anomaly_None:
  "outlier_anomaly self metric_name vals ts bm bs zs idx = Inr None \<Longrightarrow>
     outlier_confidence self (zs ! idx) < MIN_CONFIDENCE_FOR_ALERT (ad_thresholds self)"
  unfolding outlier_anomaly_def Let_def outlier_confidence_def
  by (auto simp add: bindE_Inr_iff split: if_splits)

lemma outlier_anomaly_Some:
  "outlier_anomaly self metric_name vals ts bm bs zs idx = Inr (Some a) \<Longrightarrow>
     confidence a = outlier_confidence self (zs ! idx) \<and> severity a = outlier_severity self (zs ! idx)
     \<and> detected_at a = ts ! idx"
  unfolding outlier_anomaly_def Let_def outlier_confidence_def outlier_severity_def
  by (auto simp add: bindE_Inr_iff AnomalyResult_new_def item_def split: if_splits)

lemma AnomalyResult_new_fields:
  "AnomalyResult_new t s c d dt ms cx = Inr a \<Longrightarrow>
     anomaly_type a = t \<and> severity a = s \<and> confidence a = c \<and> detected_at a = dt"
  by (auto simp add: AnomalyResult_new_def split: if_splits)

lemma item_Inr: "item xs i = Inr x \<Longrightarrow> x = xs ! i \<and> i < length xs"
  by (auto simp add: item_def split: if_splits)

lemma trend_anomaly_unfold:
  "trend_anomaly self metric_name ts bm w rm i =
     (if trend_change rm i > trend_limit self bm then
        (if trend_confidence (trend_change rm i) (trend_limit self bm)
              < MIN_CONFIDENCE_FOR_ALERT (ad_thresholds self)
         then Inr None
         else bindE (item ts (i + w - 1)) (\<lambda>dt.
              bindE (AnomalyResult_new PATTERN_DEVIATION (trend_severity bm (trend_change rm i))
                       (trend_confidence (trend_change rm i) (trend_limit self bm))
                       (trend_explanation self metric_name bm rm i) dt [metric_name]
                       (an_context (trend_result self metric_name ts bm w rm i)))
                (\<lambda>a. Inr (Some a))))
      else Inr None)"
  by (simp add: trend_anomaly_def Let_def trend_change_def trend_limit_def trend_severity_def
      trend_confidence_def trend_explanation_def trend_result_def)

lemma trend_anomaly_None:
  "trend_anomaly self metric_name ts bm w rm i = Inr None \<Longrightarrow>
     \<not> trend_change rm i > trend_limit self bm
     \<or> trend_confidence (trend_change rm i) (trend_limit self bm) < MIN_CONFIDENCE_FOR_ALERT (ad_thresholds self)"
  unfolding trend_anomaly_unfold
  by (auto simp add: bindE_Inr_iff split: if_splits)

lemma trend_anomaly_Some:
  "trend_anomaly self metric_name ts bm w rm i = Inr (Some a) \<Longrightarrow>
     confidence a = trend_confidence (trend_change rm i) (trend_limit self bm)
     \<and> severity a = trend_severity bm (trend_change rm i)
     \<and> detected_at a = ts ! (i + w - 1)"
  unfolding trend_anomaly_unfold
  by (auto simp add: bindE_Inr_iff split: if_splits dest!: AnomalyResult_new_fields item_Inr)

text \<open>
  Claim C10. With the registered thresholds (\<open>MIN_CONFIDENCE_FOR_ALERT = 0.6\<close>) neither loop
  body takes its low-confidence \<^verbatim>\<open>continue\<close>: for a z-score above the threshold the body of
  the outlier loop does not skip the point, and an anomaly it builds has the confidence
  \<open>min(1, 0.7 + (z - threshold) * 0.1)\<close>, at least \<open>0.7\<close>; for a change above its threshold
  the body of the trend loop does not skip the pair, and an anomaly it builds has a
  confidence above \<open>0.75\<close>.
\<close>

theorem low_confidence_branches_unreachable:
  "MIN_CONFIDENCE_FOR_ALERT (ad_thresholds anomaly_service) = 6 / 10
   \<and> (z_scores ! idx > Z_SCORE_THRESHOLD (ad_thresholds anomaly_service) \<longrightarrow>
        outlier_anomaly anomaly_service metric_name vals ts baseline_mean baseline_std z_scores idx \<noteq> Inr None
        \<and> (\<forall>a. outlier_anomaly anomaly_service metric_name vals ts baseline_mean baseline_std z_scores idx
                 = Inr (Some a) \<longrightarrow>
               confidence a = min 1 (7 / 10 + (z_scores ! idx - Z_SCORE_THRESHOLD (ad_thresholds anomaly_service)) * (1 / 10))
               \<and> confidence a \<ge> 7 / 10))
   \<and> (\<bar>rolling_mean ! i - rolling_mean ! (i - 1)\<bar>
          > \<bar>baseline_mean\<bar> * TREND_CHANGE_THRESHOLD (ad_thresholds anomaly_service) \<longrightarrow>
        trend_anomaly anomaly_service metric_name ts baseline_mean window_size rolling_mean i \<noteq> Inr None
        \<and> (\<forall>a. trend_anomaly anomaly_service metric_name ts baseline_mean window_size rolling_mean i
                 = Inr (Some a) \<longrightarrow> confidence a > 75 / 100))"
proof -
  let ?s = anomaly_service
  have m: "MIN_CONFIDENCE_FOR_ALERT (ad_thresholds ?s) = 6 / 10"
    by (simp add: anomaly_service_thresholds)
  have o: "outlier_anomaly ?s metric_name vals ts baseline_mean baseline_std z_scores idx \<noteq> Inr None
        \<and> (\<forall>a. outlier_anomaly ?s metric_name vals ts baseline_mean baseline_std z_scores idx
                 = Inr (Some a) \<longrightarrow>
               confidence a = min 1 (7 / 10 + (z_scores ! idx - Z_SCORE_THRESHOLD (ad_thresholds ?s)) * (1 / 10))
               \<and> confidence a \<ge> 7 / 10)"
    if z: "z_scores ! idx > Z_SCORE_THRESHOLD (ad_thresholds ?s)"
  proof -
    have c: "7 / 10 \<le> outlier_confidence ?s (z_scores ! idx)"
      using z by (rule outlier_confidence_ge)
    then have "\<not> outlier_confidence ?s (z_scores ! idx) < MIN_CONFIDENCE_FOR_ALERT (ad_thresholds ?s)"
      by (simp add: m)
    then have "outlier_anomaly ?s metric_name vals ts baseline_mean baseline_std z_scores idx \<noteq> Inr None"
      using outlier_anomaly_None by blast
    moreover have "confidence a = min 1 (7 / 10 + (z_scores ! idx - Z_SCORE_THRESHOLD (ad_thresholds ?s)) * (1 / 10))
               \<and> confidence a \<ge> 7 / 10"
      if "outlier_anomaly ?s metric_name vals ts baseline_mean baseline_std z_scores idx = Inr (Some a)" for a
      using outlier_anomaly_Some [OF that] c by (simp add: outlier_confidence_def)
    ultimately show ?thesis by blast
  qed
  have t: "trend_anomaly ?s metric_name ts baseline_mean window_size rolling_mean i \<noteq> Inr None
        \<and> (\<forall>a. trend_anomaly ?s metric_name ts baseline_mean window_size rolling_mean i
                 = Inr (Some a) \<longrightarrow> confidence a > 75 / 100)"
    if g: "\<bar>rolling_mean ! i - rolling_mean ! (i - 1)\<bar> > \<bar>baseline_mean\<bar> * TREND_CHANGE_THRESHOLD (ad_thresholds ?s)"
  proof -
    have g': "trend_limit ?s baseline_mean < trend_change rolling_mean i"
      using g by (simp add: trend_limit_def trend_change_def)
    have "0 \<le> trend_limit ?s baseline_mean"
      by (simp add: trend_limit_def anomaly_service_thresholds)
    with g' have c: "75 / 100 < trend_confidence (trend_change rolling_mean i) (trend_limit ?s baseline_mean)"
      by (rule trend_confidence_gt)
    then have "\<not> trend_confidence (trend_change rolling_mean i) (trend_limit ?s baseline_mean)
                 < MIN_CONFIDENCE_FOR_ALERT (ad_thresholds ?s)"
      by (simp add: m)
    then have "trend_anomaly ?s metric_name ts baseline_mean window_size rolling_mean i \<noteq> Inr None"
      using trend_anomaly_None g' by blast
    moreover have "confidence a > 75 / 100"
      if "trend_anomaly ?s metric_name ts baseline_mean window_size rolling_mean i = Inr (Some a)" for a
      using trend_anomaly_Some [OF that] c by simp
    ultimately show ?thesis by blast
  qed
  from m o t show ?thesis by blast
qed

theorem low_confidence_branches_unreachable_witness:
  "[0, 0, 156 / 10] ! 2 > Z_SCORE_THRESHOLD (ad_thresholds anomaly_service)
   \<and> outlier_anomaly anomaly_service ''heart_rate'' [72, 73, 150] [0, 1, 2] 70 5 [0, 0, 156 / 10] 2 \<noteq> Inr None
   \<and> \<bar>[70, 85] ! 1 - [70, 85] ! (1 - 1)\<bar> > \<bar>70\<bar> * TREND_CHANGE_THRESHOLD (ad_thresholds anomaly_service)
   \<and> trend_anomaly anomaly_service ''heart_rate'' [0, 1, 2] 70 2 [70, 85] 1 \<noteq> Inr None"
proof -
  have z: "[0, 0, 156 / 10] ! 2 > Z_SCORE_THRESHOLD (ad_thresholds anomaly_service)"
    by (simp add: anomaly_service_thresholds)
  have g: "\<bar>[70, 85] ! 1 - [70, 85] ! (1 - 1)\<bar> > \<bar>70\<bar> * TREND_CHANGE_THRESHOLD (ad_thresholds anomaly_service)"
    by (simp add: anomaly_service_thresholds)
  note t = low_confidence_branches_unreachable
    [where z_scores = "[0, 0, 156 / 10]" and idx = 2 and metric_name = "''heart_rate''"
       and vals = "[72, 73, 150]" and ts = "[0, 1, 2]" and baseline_mean = 70 and baseline_std = 5
       and rolling_mean = "[70, 85]" and i = 1 and window_size = 2]
  from t z have "outlier_anomaly anomaly_service ''heart_rate'' [72, 73, 150] [0, 1, 2] 70 5 [0, 0, 156 / 10] 2 \<noteq> Inr None"
    by blast
  moreover from t g have "trend_anomaly anomaly_service ''heart_rate'' [0, 1, 2] 70 2 [70, 85] 1 \<noteq> Inr None"
    by blast
  ultimately show ?thesis using z g by blast
qed


subsection \<open>Anomaly detection: the response\<close>

lemma calculate_overall_risk_unit:
  assumes "\<forall>a\<in>set anoms. unit_anomaly a"
  shows "0 \<le> calculate_overall_risk anoms \<and> calculate_overall_risk anoms \<le> 1"
proof -
  have "0 \<le> sum_list (map (\<lambda>a. severity a * confidence a) anoms)"
    using assms by (intro sum_list_nonneg) (auto simp add: unit_anomaly_def)
  then show ?thesis
    by (simp add: calculate_overall_risk_def Let_def)
qed

lemma detect_anomalies_eq:
  assumes z: "0 < Z_SCORE_THRESHOLD (ad_thresholds self)"
    and m: "0 \<le> MIN_CONFIDENCE_FOR_ALERT (ad_thresholds self)"
    and l: "\<forall>(metric_name, vals)\<in>set (time_series_data request). length vals \<le> length (timestamps request)"
  shows "\<exists>r. detect_anomalies self request now = Inr r \<and> anomalies r = code_anomaly_order self request"
proof -
  let ?pm = "concat (map (\<lambda>(metric_name, vals).
        metric_outliers self metric_name vals (timestamps request) (baseline_stats request)
        @ metric_trends self metric_name vals (timestamps request) (baseline_stats request))
       (time_series_data request))"
  let ?cm = "cross_metric_results self (time_series_data request) (timestamps request)"
  have p: "metrics_loop self (timestamps request) (baseline_stats request) (time_series_data request) = Inr ?pm"
    using metrics_loop_eq [OF z m l] .
  have c: "detect_cross_metric_anomalies self (time_series_data request) (timestamps request) = Inr ?cm"
    using detect_cross_metric_anomalies_eq [OF l] .
  have "\<forall>a\<in>set (?pm @ ?cm). unit_anomaly a"
    using metrics_loop_unit [OF p] detect_cross_metric_anomalies_unit [OF c] by auto
  from calculate_overall_risk_unit [OF this]
  show ?thesis
    unfolding detect_anomalies_def p c bindE_Inr Let_def code_anomaly_order_def
    by (simp add: AnomalyDetectionResponse_new_def)
qed

lemma sorted_filter_upt: "sorted (filter P [m ..< n]) \<and> distinct (filter P [m ..< n])"
  by (simp add: sorted_wrt_filter)


subsection \<open>Anomaly detection: the z-score boundary\<close>












subsection \<open>Anomaly detection: the order of the anomalies\<close>

lemma ordering_covered:
  "\<forall>(metric_name, vals)\<in>set (time_series_data ordering_request).
      length vals \<le> length (timestamps ordering_request)"
  by (simp add: ordering_request_def)

lemma metric_outliers_ascending:
  "\<exists>idxs. sorted idxs \<and> distinct idxs \<and> set idxs \<subseteq> {..< length vals}
     \<and> metric_outliers self metric_name vals ts bstats =
         map (outlier_result self metric_name vals ts (fst (baseline_of bstats metric_name vals))
                (snd (baseline_of bstats metric_name vals))
                (z_scores_of vals (fst (baseline_of bstats metric_name vals))
                   (snd (baseline_of bstats metric_name vals)))) idxs"
proof (cases "length vals < 3")
  case True
  then show ?thesis
    by (intro exI [of _ "[]"]) (simp add: metric_outliers_def)
next
  case False
  let ?zs = "z_scores_of vals (fst (baseline_of bstats metric_name vals))
                   (snd (baseline_of bstats metric_name vals))"
  let ?idxs = "filter (\<lambda>idx. ?zs ! idx > Z_SCORE_THRESHOLD (ad_thresholds self)
                         \<and> \<not> outlier_confidence self (?zs ! idx)
                               < MIN_CONFIDENCE_FOR_ALERT (ad_thresholds self)) [0 ..< length vals]"
  have "sorted ?idxs \<and> distinct ?idxs" by (rule sorted_filter_upt)
  moreover have "set ?idxs \<subseteq> {..< length vals}" by auto
  moreover have "metric_outliers self metric_name vals ts bstats =
      map (outlier_result self metric_name vals ts (fst (baseline_of bstats metric_name vals))
                (snd (baseline_of bstats metric_name vals)) ?zs) ?idxs"
    using False by (simp add: metric_outliers_def Let_def)
  ultimately show ?thesis by blast
qed

lemma metric_trends_ascending:
  "\<exists>is. sorted is \<and> distinct is
     \<and> metric_trends self metric_name vals ts bstats =
         map (trend_result self metric_name ts (fst (baseline_of bstats metric_name vals))
                (trend_window vals) (trend_rolling_mean vals)) is"
proof (cases "length vals < 5")
  case True
  then show ?thesis
    by (intro exI [of _ "[]"]) (simp add: metric_trends_def)
next
  case False
  let ?is = "filter (trend_kept self (fst (baseline_of bstats metric_name vals)) (trend_rolling_mean vals))
               [1 ..< length (trend_rolling_mean vals)]"
  have "sorted ?is \<and> distinct ?is" by (rule sorted_filter_upt)
  moreover have "metric_trends self metric_name vals ts bstats =
      map (trend_result self metric_name ts (fst (baseline_of bstats metric_name vals))
                (trend_window vals) (trend_rolling_mean vals)) ?is"
    using False by (simp add: metric_trends_def Let_def)
  ultimately show ?thesis by blast
qed

text \<open>
  Claim C5, as amended. For a request whose timestamps cover every series,
  \<^verbatim>\<open>detect_anomalies\<close> returns a response whose anomalies are, for each metric in the order
  of \<^verbatim>\<open>time_series_data\<close>, the outlier anomalies of that metric followed by the trend
  anomalies of that metric, and after all metrics the cross-metric anomalies; the outlier
  anomalies of a metric, and its trend anomalies, are in ascending order of index.
\<close>

theorem anomalies_grouped_by_metric:
  assumes "\<forall>(metric_name, vals)\<in>set (time_series_data request).
             length vals \<le> length (timestamps request)"
  shows "(\<exists>r. detect_anomalies anomaly_service request now = Inr r
            \<and> anomalies r = code_anomaly_order anomaly_service request)
     \<and> (\<forall>(metric_name, vals)\<in>set (time_series_data request).
          (\<exists>idxs. sorted idxs \<and> distinct idxs
             \<and> map detected_at (metric_outliers anomaly_service metric_name vals (timestamps request)
                                   (baseline_stats request))
                 = map (\<lambda>idx. timestamps request ! idx) idxs)
          \<and> (\<exists>is. sorted is \<and> distinct is
             \<and> map detected_at (metric_trends anomaly_service metric_name vals (timestamps request)
                                   (baseline_stats request))
                 = map (\<lambda>i. timestamps request ! (i + trend_window vals - 1)) is))"
proof -
  have z: "0 < Z_SCORE_THRESHOLD (ad_thresholds anomaly_service)"
    and m: "0 \<le> MIN_CONFIDENCE_FOR_ALERT (ad_thresholds anomaly_service)"
    by (simp_all add: anomaly_service_thresholds)
  have a: "\<exists>r. detect_anomalies anomaly_service request now = Inr r
            \<and> anomalies r = code_anomaly_order anomaly_service request"
    using detect_anomalies_eq [OF z m assms] .
  have o: "\<exists>idxs. sorted idxs \<and> distinct idxs
             \<and> map detected_at (metric_outliers anomaly_service metric_name vals ts bstats)
                 = map (\<lambda>idx. ts ! idx) idxs" for metric_name vals ts bstats
  proof -
    obtain idxs where "sorted idxs" "distinct idxs"
      and e: "metric_outliers anomaly_service metric_name vals ts bstats =
         map (outlier_result anomaly_service metric_name vals ts (fst (baseline_of bstats metric_name vals))
                (snd (baseline_of bstats metric_name vals))
                (z_scores_of vals (fst (baseline_of bstats metric_name vals))
                   (snd (baseline_of bstats metric_name vals)))) idxs"
      using metric_outliers_ascending [of vals anomaly_service metric_name ts bstats] by blast
    then show ?thesis
      by (intro exI [of _ idxs]) (simp add: outlier_result_def)
  qed
  have t: "\<exists>is. sorted is \<and> distinct is
             \<and> map detected_at (metric_trends anomaly_service metric_name vals ts bstats)
                 = map (\<lambda>i. ts ! (i + trend_window vals - 1)) is" for metric_name vals ts bstats
  proof -
    obtain "is" where "sorted is" "distinct is"
      and e: "metric_trends anomaly_service metric_name vals ts bstats =
         map (trend_result anomaly_service metric_name ts (fst (baseline_of bstats metric_name vals))
                (trend_window vals) (trend_rolling_mean vals)) is"
      using metric_trends_ascending [of anomaly_service metric_name vals ts bstats] by blast
    then show ?thesis
      by (intro exI [of _ "is"]) (simp add: trend_result_def)
  qed
  from a o t show ?thesis by auto
qed

theorem anomalies_grouped_by_metric_witness:
  "map (length \<circ> snd) (time_series_data ordering_request) = [5, 5]
   \<and> length (timestamps ordering_request) = 5
   \<and> (\<exists>r. detect_anomalies anomaly_service ordering_request 0 = Inr r
            \<and> anomalies r = code_anomaly_order anomaly_service ordering_request)"
proof -
  have "map (length \<circ> snd) (time_series_data ordering_request) = [5, 5]"
    and "length (timestamps ordering_request) = 5"
    by (simp_all add: ordering_request_def)
  then show ?thesis
    using anomalies_grouped_by_metric [OF ordering_covered, of 0] by blast
qed

lemma replicate_2: "replicate 2 x = [x, x]"
  by (simp add: numeral_2_eq_2)

lemma ordering_heart_rate_outliers:
  "metric_outliers anomaly_service ''heart_rate'' [70, 70, 70, 100, 100]
     (timestamps ordering_request) (baseline_stats ordering_request) = []"
  by (simp add: metric_outliers_def ordering_request_def baseline_of_def z_scores_of_def Let_def
      anomaly_service_thresholds)

lemma ordering_heart_rate_trends:
  "map anomaly_type (metric_trends anomaly_service ''heart_rate'' [70, 70, 70, 100, 100]
     (timestamps ordering_request) (baseline_stats ordering_request))
   = [PATTERN_DEVIATION, PATTERN_DEVIATION]"
  by (simp add: metric_trends_def ordering_request_def baseline_of_def Let_def
      trend_rolling_mean_def trend_window_def replicate_2 np_convolve_valid_def
      trend_kept_def trend_change_def trend_limit_def trend_confidence_def trend_result_def
      anomaly_service_thresholds)

lemma ordering_motion_outliers:
  "map anomaly_type (metric_outliers anomaly_service ''motion'' [1, 1, 10, 1, 1]
     (timestamps ordering_request) (baseline_stats ordering_request))
   = [MOTION_ANOMALY]"
  by (simp add: metric_outliers_def ordering_request_def baseline_of_def z_scores_of_def Let_def
      outlier_confidence_def outlier_result_def anomaly_service_thresholds
      determine_anomaly_type_def lower_def to_lower_def is_upper_def)

lemma ordering_motion_trends:
  "map anomaly_type (metric_trends anomaly_service ''motion'' [1, 1, 10, 1, 1]
     (timestamps ordering_request) (baseline_stats ordering_request))
   = [PATTERN_DEVIATION, PATTERN_DEVIATION]"
  by (simp add: metric_trends_def ordering_request_def baseline_of_def Let_def
      trend_rolling_mean_def trend_window_def replicate_2 np_convolve_valid_def
      trend_kept_def trend_change_def trend_limit_def trend_confidence_def trend_result_def
      anomaly_service_thresholds)

lemma ordering_cross:
  "cross_metric_results anomaly_service (time_series_data ordering_request) (timestamps ordering_request) = []"
  by (simp add: cross_metric_results_def ordering_request_def)

lemma ordering_series:
  "time_series_data ordering_request =
     [(''heart_rate'', [70, 70, 70, 100, 100]), (''motion'', [1, 1, 10, 1, 1])]"
  by (simp add: ordering_request_def)

lemma ordering_code_types:
  "map anomaly_type (code_anomaly_order anomaly_service ordering_request) =
     [PATTERN_DEVIATION, PATTERN_DEVIATION, MOTION_ANOMALY, PATTERN_DEVIATION, PATTERN_DEVIATION]"
  unfolding code_anomaly_order_def ordering_series
  by (simp add: ordering_heart_rate_outliers ordering_heart_rate_trends ordering_motion_outliers
      ordering_motion_trends ordering_cross [unfolded ordering_series])

lemma ordering_spec_types:
  "map anomaly_type (spec_anomaly_order anomaly_service ordering_request) =
     [MOTION_ANOMALY, PATTERN_DEVIATION, PATTERN_DEVIATION, PATTERN_DEVIATION, PATTERN_DEVIATION]"
  unfolding spec_anomaly_order_def ordering_series
  by (simp add: ordering_heart_rate_outliers ordering_heart_rate_trends ordering_motion_outliers
      ordering_motion_trends ordering_cross [unfolded ordering_series])

text \<open>
  Claim C5 as stated (all outlier anomalies, then all trend anomalies, then cross-metric)
  fails on \<open>ordering_request\<close>: the response starts with the two trend anomalies of
  \<open>heart_rate\<close>, and the outlier anomaly of \<open>motion\<close> comes after them.
\<close>

theorem anomalies_not_all_outliers_first:
  "map_sum id (map anomaly_type \<circ> anomalies) (detect_anomalies anomaly_service ordering_request 0) =
     Inr [PATTERN_DEVIATION, PATTERN_DEVIATION, MOTION_ANOMALY, PATTERN_DEVIATION, PATTERN_DEVIATION]
   \<and> map anomaly_type (spec_anomaly_order anomaly_service ordering_request) =
     [MOTION_ANOMALY, PATTERN_DEVIATION, PATTERN_DEVIATION, PATTERN_DEVIATION, PATTERN_DEVIATION]
   \<and> map_sum id anomalies (detect_anomalies anomaly_service ordering_request 0)
       \<noteq> Inr (spec_anomaly_order anomaly_service ordering_request)"
proof -
  have z: "0 < Z_SCORE_THRESHOLD (ad_thresholds anomaly_service)"
    and m: "0 \<le> MIN_CONFIDENCE_FOR_ALERT (ad_thresholds anomaly_service)"
    by (simp_all add: anomaly_service_thresholds)
  obtain r where r: "detect_anomalies anomaly_service ordering_request 0 = Inr r"
    and a: "anomalies r = code_anomaly_order anomaly_service ordering_request"
    using detect_anomalies_eq [OF z m ordering_covered] by blast
  have "code_anomaly_order anomaly_service ordering_request
      \<noteq> spec_anomaly_order anomaly_service ordering_request"
  proof
    assume "code_anomaly_order anomaly_service ordering_request
      = spec_anomaly_order anomaly_service ordering_request"
    then have "map anomaly_type (code_anomaly_order anomaly_service ordering_request)
      = map anomaly_type (spec_anomaly_order anomaly_service ordering_request)" by simp
    then show False by (simp add: ordering_code_types ordering_spec_types)
  qed
  then show ?thesis
    by (simp add: r a ordering_code_types ordering_spec_types)
qed

theorem overall_risk_is_confidence_weighted_mean_witness:
  "0 \<le> confidence (cross_result anomaly_service [80] [37] [0] 0)
   \<and> severity (cross_result anomaly_service [80] [37] [0] 0) \<le> 1
   \<and> calculate_overall_risk [cross_result anomaly_service [80] [37] [0] 0] = 7 / 10
   \<and> (\<exists>r. detect_anomalies anomaly_service ordering_request 0 = Inr r
        \<and> adr_overall_risk_score r =
          (if anomalies r = [] then 0
           else if sum_list (map confidence (anomalies r)) = 0 then 0
           else sum_list (map (\<lambda>a. severity a * confidence a) (anomalies r))
                  / sum_list (map confidence (anomalies r))))"
proof -
  have z: "0 < Z_SCORE_THRESHOLD (ad_thresholds anomaly_service)"
    and m: "0 \<le> MIN_CONFIDENCE_FOR_ALERT (ad_thresholds anomaly_service)"
    by (simp_all add: anomaly_service_thresholds)
  obtain r where r: "detect_anomalies anomaly_service ordering_request 0 = Inr r"
    using detect_anomalies_eq [OF z m ordering_covered] by blast
  have b: "\<forall>a\<in>set [cross_result anomaly_service [80] [37] [0] 0]. 0 \<le> confidence a \<and> severity a \<le> 1"
    by (simp add: cross_result_def)
  note t = overall_risk_is_confidence_weighted_mean
    [of "[cross_result anomaly_service [80] [37] [0] 0]" anomaly_service ordering_request 0 r]
  have "calculate_overall_risk [cross_result anomaly_service [80] [37] [0] 0] = 7 / 10"
    using t b by (simp add: cross_result_def)
  moreover have "adr_overall_risk_score r =
          (if anomalies r = [] then 0
           else if sum_list (map confidence (anomalies r)) = 0 then 0
           else sum_list (map (\<lambda>a. severity a * confidence a) (anomalies r))
                  / sum_list (map confidence (anomalies r)))"
    using t r by blast
  ultimately show ?thesis using b r by auto
qed


subsection \<open>Signal quality: the SNR\<close>








lemma map_sum_bindE: "map_sum id f (bindE m g) = bindE m (\<lambda>x. map_sum id f (g x))"
  by (cases m) simp_all

lemma map_sum_if:
  "map_sum id f (if c then a else b) = (if c then map_sum id f a else map_sum id f b)"
  by simp

lemma assess_quality_clock:
  "map_sum id erase_sq (assess_quality self request now) =
     map_sum id erase_sq (assess_quality self request now')"
  by (simp add: assess_quality_def Let_def map_sum_bindE map_sum_if SignalQualityResponse_new_def
      erase_sq_def cong: if_cong)

lemma detect_anomalies_clock:
  "map_sum id erase_ad (detect_anomalies self request now) =
     map_sum id erase_ad (detect_anomalies self request now')"
  by (simp add: detect_anomalies_def Let_def map_sum_bindE map_sum_if AnomalyDetectionResponse_new_def
      erase_ad_def cong: if_cong)

lemma calculate_risk_clock:
  "map_sum id erase_rs (calculate_risk self request now1 now2) =
     map_sum id erase_rs (calculate_risk self request now1' now2')"
  by (simp add: calculate_risk_def Let_def map_sum_bindE map_sum_if RiskScoringResponse_new_def
      erase_rs_def cong: if_cong)

lemma SignalQualityService_init_default:
  "SignalQualityService_init MODEL_REGISTRY = (Inr signal_service, MODEL_REGISTRY)"
  by (simp add: SignalQualityService_init_def get_latest_model_version_def get_model_config_def
      MODEL_REGISTRY_def signal_service_def SIGNAL_QUALITY_V1_config_def)













subsection \<open>Determinism of the engines\<close>

lemma init_registry:
  "snd (SignalQualityService_init reg) = reg"
  "snd (AnomalyDetectionService_init reg) = reg"
  "snd (RiskScoringService_init reg) = reg"
  by (auto simp add: SignalQualityService_init_def AnomalyDetectionService_init_def
      RiskScoringService_init_def get_model_config_def split: sum.splits option.splits)

lemma map_sum_case_sum:
  "map_sum id f (case m of Inl e \<Rightarrow> Inl (h e) | Inr x \<Rightarrow> Inr x) =
     (case map_sum id f m of Inl e \<Rightarrow> Inl (h e) | Inr x \<Rightarrow> Inr x)"
  by (cases m) simp_all

lemma assess_signal_quality_twice:
  "map_sum id erase_sq (fst (assess_signal_quality request now' (snd (assess_signal_quality request now (None, reg)))))
     = map_sum id erase_sq (fst (assess_signal_quality request now (None, reg)))
   \<and> snd (snd (assess_signal_quality request now' (snd (assess_signal_quality request now (None, reg))))) = reg"
proof (cases "SignalQualityService_init reg")
  case (Pair res reg')
  have reg': "reg' = reg" using init_registry(1) [of reg] Pair by simp
  show ?thesis
  proof (cases res)
    case (Inl e)
    then show ?thesis
      using Pair reg' by (simp add: assess_signal_quality_def get_signal_quality_service_def)
  next
    case (Inr service)
    have "map_sum id erase_sq (assess_quality service request now')
        = map_sum id erase_sq (assess_quality service request now)"
      by (rule assess_quality_clock)
    then show ?thesis
      using Pair reg' Inr
      by (cases "assess_quality service request now"; cases "assess_quality service request now'")
         (simp_all add: assess_signal_quality_def get_signal_quality_service_def)
  qed
qed

lemma detect_anomalies_router_twice:
  "map_sum id erase_ad (fst (detect_anomalies_router request now' (snd (detect_anomalies_router request now (None, reg)))))
     = map_sum id erase_ad (fst (detect_anomalies_router request now (None, reg)))
   \<and> snd (snd (detect_anomalies_router request now' (snd (detect_anomalies_router request now (None, reg))))) = reg"
proof (cases "AnomalyDetectionService_init reg")
  case (Pair res reg')
  have reg': "reg' = reg" using init_registry(2) [of reg] Pair by simp
  show ?thesis
  proof (cases res)
    case (Inl e)
    then show ?thesis
      using Pair reg' by (simp add: detect_anomalies_router_def get_anomaly_detection_service_def)
  next
    case (Inr service)
    have "map_sum id erase_ad (detect_anomalies service request now')
        = map_sum id erase_ad (detect_anomalies service request now)"
      by (rule detect_anomalies_clock)
    then show ?thesis
      using Pair reg' Inr
      by (cases "detect_anomalies service request now"; cases "detect_anomalies service request now'")
         (simp_all add: detect_anomalies_router_def get_anomaly_detection_service_def)
  qed
qed

lemma calculate_risk_score_twice:
  "map_sum id erase_rs (fst (calculate_risk_score request now1' now2' (snd (calculate_risk_score request now1 now2 (None, reg)))))
     = map_sum id erase_rs (fst (calculate_risk_score request now1 now2 (None, reg)))
   \<and> snd (snd (calculate_risk_score request now1' now2' (snd (calculate_risk_score request now1 now2 (None, reg))))) = reg"
proof (cases "RiskScoringService_init reg")
  case (Pair res reg')
  have reg': "reg' = reg" using init_registry(3) [of reg] Pair by simp
  show ?thesis
  proof (cases res)
    case (Inl e)
    then show ?thesis
      using Pair reg' by (simp add: calculate_risk_score_def get_risk_scoring_service_def)
  next
    case (Inr service)
    have "map_sum id erase_rs (calculate_risk service request now1' now2')
        = map_sum id erase_rs (calculate_risk service request now1 now2)"
      by (rule calculate_risk_clock)
    then show ?thesis
      using Pair reg' Inr
      by (cases "calculate_risk service request now1 now2"; cases "calculate_risk service request now1' now2'")
         (simp_all add: calculate_risk_score_def get_risk_scoring_service_def)
  qed
qed

text \<open>
  Claim C9. In each engine the readings of the clock reach the timestamp fields only: two
  invocations of a service on the same request give the same response, or the same error,
  once \<^verbatim>\<open>processed_at\<close>, or \<^verbatim>\<open>assessed_at\<close> and \<^verbatim>\<open>valid_until\<close>, are erased. The same
  holds for two successive calls of an endpoint from the start of the process, the first
  building the singleton service from the registry and the second reusing it; the
  registry is the same afterwards.
\<close>

theorem engines_deterministic:
  "map_sum id erase_sq (assess_quality sq_self sq_request now) =
     map_sum id erase_sq (assess_quality sq_self sq_request now')
   \<and> map_sum id erase_ad (detect_anomalies ad_self ad_request now) =
     map_sum id erase_ad (detect_anomalies ad_self ad_request now')
   \<and> map_sum id erase_rs (calculate_risk rs_self rs_request now1 now2) =
     map_sum id erase_rs (calculate_risk rs_self rs_request now1' now2')
   \<and> map_sum id erase_sq
        (fst (assess_signal_quality sq_request now' (snd (assess_signal_quality sq_request now (None, reg)))))
     = map_sum id erase_sq (fst (assess_signal_quality sq_request now (None, reg)))
   \<and> map_sum id erase_ad
        (fst (detect_anomalies_router ad_request now' (snd (detect_anomalies_router ad_request now (None, reg)))))
     = map_sum id erase_ad (fst (detect_anomalies_router ad_request now (None, reg)))
   \<and> map_sum id erase_rs
        (fst (calculate_risk_score rs_request now1' now2'
               (snd (calculate_risk_score rs_request now1 now2 (None, reg)))))
     = map_sum id erase_rs (fst (calculate_risk_score rs_request now1 now2 (None, reg)))"
  using assess_quality_clock [of sq_self sq_request now now']
    detect_anomalies_clock [of ad_self ad_request now now']
    calculate_risk_clock [of rs_self rs_request now1 now2 now1' now2']
    assess_signal_quality_twice [of sq_request now' now reg]
    detect_anomalies_router_twice [of ad_request now' now reg]
    calculate_risk_score_twice [of rs_request now1' now2' now1 now2 reg]
  by blast

end
